theory Spec2Isabelle
  imports Main "HOL-Library.Char_ord" "HOL-Library.List_Lexorder"
begin

section \<open>Strings and paths of the Python library\<close>

text \<open>
  The script \<^verbatim>\<open>script/gen_gallery.py\<close> works on Python strings. A string is a
  \<^typ>\<open>string\<close>; the functions of this section are the string methods and the
  \<^verbatim>\<open>posixpath\<close> functions the script calls, with \<^verbatim>\<open>os.path.sep\<close> the POSIX
  separator.
\<close>

type_synonym path = string

definition sep :: char where
  "sep = CHR ''/''"

definition extsep :: char where
  "extsep = CHR ''.''"

definition newline :: char where
  "newline = CHR 0x0A"

text \<open>\<^verbatim>\<open>s.startswith(t)\<close>.\<close>

definition startswith :: "string \<Rightarrow> string \<Rightarrow> bool" where
  "startswith s t = (take (length t) s = t)"

text \<open>
  \<^verbatim>\<open>s.replace(old, new)\<close> for a non-empty \<^verbatim>\<open>old\<close>: the occurrences are found
  from the left and do not overlap.
\<close>

function replace_scan :: "string \<Rightarrow> string \<Rightarrow> string \<Rightarrow> string" where
  "replace_scan old new [] = []"
| "replace_scan old new (c # cs) =
     (if old \<noteq> [] \<and> startswith (c # cs) old
      then new @ replace_scan old new (drop (length old) (c # cs))
      else c # replace_scan old new cs)"
  by pat_completeness auto
termination
  by (relation "measure (\<lambda>(old, new, s). length s)") (auto simp: neq_Nil_conv)

text \<open>
  \<^verbatim>\<open>s.replace(old, new)\<close>. With an empty \<^verbatim>\<open>old\<close> Python puts \<^verbatim>\<open>new\<close> before
  every character and at the end.
\<close>

definition replace :: "string \<Rightarrow> string \<Rightarrow> string \<Rightarrow> string" where
  "replace s old new =
     (if old = [] then new @ concat (map (\<lambda>c. c # new) s) else replace_scan old new s)"

text \<open>\<^verbatim>\<open>s.count(c)\<close> for a one-character \<^verbatim>\<open>c\<close>.\<close>

definition count_char :: "string \<Rightarrow> char \<Rightarrow> nat" where
  "count_char s c = length (filter (\<lambda>x. x = c) s)"

text \<open>\<^verbatim>\<open>s.rfind(c)\<close> for a one-character \<^verbatim>\<open>c\<close>: the last index, or -1.\<close>

fun rfind_from :: "char \<Rightarrow> string \<Rightarrow> int \<Rightarrow> int \<Rightarrow> int" where
  "rfind_from c [] i found = found"
| "rfind_from c (x # xs) i found = rfind_from c xs (i + 1) (if x = c then i else found)"

definition rfind :: "string \<Rightarrow> char \<Rightarrow> int" where
  "rfind s c = rfind_from c s 0 (- 1)"

text \<open>\<^verbatim>\<open>s.rstrip(c)\<close> for a one-character \<^verbatim>\<open>c\<close>.\<close>

definition rstrip :: "string \<Rightarrow> char \<Rightarrow> string" where
  "rstrip s c = rev (dropWhile (\<lambda>x. x = c) (rev s))"

text \<open>\<^verbatim>\<open>os.path.basename(p)\<close>: what follows the last separator.\<close>

definition basename :: "path \<Rightarrow> path" where
  "basename p = drop (nat (rfind p sep + 1)) p"

text \<open>
  \<^verbatim>\<open>os.path.dirname(p)\<close>: what precedes the last separator, with the trailing
  separators removed unless nothing else is left.
\<close>

definition dirname :: "path \<Rightarrow> path" where
  "dirname p =
     (let head = take (nat (rfind p sep + 1)) p
      in if head \<noteq> [] \<and> head \<noteq> replicate (length head) sep then rstrip head sep else head)"

text \<open>
  \<^verbatim>\<open>os.path.join(a, b)\<close>: an absolute \<^verbatim>\<open>b\<close> replaces \<^verbatim>\<open>a\<close>; otherwise one
  separator is put between them unless \<^verbatim>\<open>a\<close> is empty or ends with one.
\<close>

definition join :: "path \<Rightarrow> path \<Rightarrow> path" where
  "join a b =
     (if startswith b [sep] then b
      else if a = [] \<or> last a = sep then a @ b
      else a @ [sep] @ b)"

text \<open>
  The loop of \<^verbatim>\<open>genericpath._splitext\<close> that skips the leading dots of the file
  name: it answers whether a character other than a dot precedes the last dot.
\<close>

fun dot_after_name :: "string \<Rightarrow> bool" where
  "dot_after_name [] = False"
| "dot_after_name (c # cs) = (if c \<noteq> extsep then True else dot_after_name cs)"

text \<open>
  \<^verbatim>\<open>os.path.splitext(p)\<close>: the extension starts at the last dot of the last
  component, when a character other than a dot comes before it there.
\<close>

definition splitext :: "path \<Rightarrow> path \<times> string" where
  "splitext p =
     (let sepIndex = rfind p sep; dotIndex = rfind p extsep
      in if dotIndex > sepIndex
            \<and> dot_after_name (take (nat (dotIndex - (sepIndex + 1))) (drop (nat (sepIndex + 1)) p))
         then (take (nat dotIndex) p, drop (nat dotIndex) p)
         else (p, []))"

section \<open>Path mapper\<close>

text \<open>The list of examples that are left out: \<^verbatim>\<open>omits\<close>.\<close>

definition omits :: "string list" where
  "omits = [''linear_elastic_mM.py'']"

text \<open>\<^verbatim>\<open>_get_fig_filename(ebase, images_dir)\<close>.\<close>

definition get_fig_filename :: "path \<Rightarrow> path \<Rightarrow> string \<times> path" where
  "get_fig_filename ebase images_dir =
     (let fig_base = replace (fst (splitext ebase)) [sep] ''-'';
          fig_filename = join images_dir (fig_base @ ''.png'')
      in (fig_base, fig_filename))"

text \<open>
  \<^verbatim>\<open>_make_sphinx_path(path, relative)\<close>. The data root \<^verbatim>\<open>sfepy.data_dir\<close> is
  set when the package is imported; it is the parameter \<open>data_dir\<close>.
\<close>

definition make_sphinx_path :: "path \<Rightarrow> path \<Rightarrow> bool \<Rightarrow> path" where
  "make_sphinx_path data_dir p relative =
     (if relative then
        (let aux = replace p data_dir [];
             prefix = concat (replicate (count_char aux sep) (''..'' @ [sep]))
         in butlast prefix @ aux)
      else replace p data_dir (sep # ''..''))"

text \<open>
  The relative name of an example, as both generators compute it:
  \<^verbatim>\<open>ex_filename.replace(examples_dir, '')[1:]\<close>.
\<close>

definition get_ebase :: "path \<Rightarrow> path \<Rightarrow> path" where
  "get_ebase examples_dir ex_filename = drop 1 (replace ex_filename examples_dir [])"

section \<open>External collaborators and effects\<close>

text \<open>
  The solver, the viewer, the thumbnailer and the file utilities are called, not defined,
  by the script. What they answer is a parameter of the model, collected in one record;
  what the script asks of them is recorded as a list of events, in program order.
\<close>

datatype error = KeyboardInterrupt

text \<open>The \<^verbatim>\<open>Struct\<close> of options handed to \<^verbatim>\<open>pde_solve\<close>.\<close>

record solve_options =
  output_filename_trunk :: path
  output_format :: string
  save_ebc :: bool
  save_regions :: bool
  save_field_meshes :: bool
  save_regions_as_groups :: bool
  solve_not :: bool

text \<open>
  What \<^verbatim>\<open>generate_images\<close> reads of a solved problem: whether \<^verbatim>\<open>ts_conf\<close> is set,
  and the name \<^verbatim>\<open>problem.get_output_name(suffix=problem.ts.suffix % problem.ts.step)\<close>.
\<close>

record problem =
  has_ts_conf :: bool
  ts_output_name :: path

text \<open>
  A call of \<^verbatim>\<open>pde_solve\<close> returns a problem, raises \<^verbatim>\<open>KeyboardInterrupt\<close>, or
  raises something else.
\<close>

datatype solve_result = Solved problem | Failed | Interrupted

text \<open>The \<^verbatim>\<open>Viewer\<close> object: its file name and its two constructor keywords.\<close>

record viewer =
  view_filename :: path
  view_output_dir :: path
  offscreen :: bool

datatype event =
    Output string
  | EnsurePath path
  | Solve path solve_options
  | Render viewer bool bool path
  | Clf
  | RemoveFiles path
  | Thumbnail path path
  | OpenFile path
  | CloseFile path string
  | WriteFile path string

text \<open>
  \<open>Render view show is_scalar_bar fig_filename\<close> is the call
  \<^verbatim>\<open>view(scene=view.scene, show=..., is_scalar_bar=..., fig_filename=...)\<close> with the
  viewer as it is at the call; \<open>Thumbnail\<close> is \<^verbatim>\<open>image.thumbnail\<close> (its float scale
  is left out). \<open>OpenFile p\<close> is \<^verbatim>\<open>open(p, 'w')\<close> for a handle that stays open while
  other files are written, and \<open>CloseFile p text\<close> is the \<^verbatim>\<open>close()\<close> of that handle
  after \<open>text\<close> was written to it in all. \<open>WriteFile p text\<close> is a file opened for
  writing at \<open>p\<close>, written once and closed at once, as a content page is.
\<close>

record world =
  data_dir :: path
  mkdtemp :: path
  locate_files :: "path \<Rightarrow> path list"
  pde_solve :: "path \<Rightarrow> solve_options \<Rightarrow> solve_result"
  glob_png :: "path \<Rightarrow> path list"
  realpath :: "path \<Rightarrow> path"

text \<open>
  \<open>data_dir\<close> is \<^verbatim>\<open>sfepy.data_dir\<close>, \<open>mkdtemp\<close> the directory
  \<^verbatim>\<open>tempfile.mkdtemp()\<close> returns, \<open>locate_files d\<close> the sequence
  \<^verbatim>\<open>locate_files('*.py', d)\<close>, \<open>glob_png\<close> is \<^verbatim>\<open>glob.glob\<close> and \<open>realpath\<close> is
  \<^verbatim>\<open>os.path.realpath\<close>.
\<close>

definition dquote :: char where
  "dquote = CHR 0x22"

definition quoted :: "string \<Rightarrow> string" where
  "quoted s = [dquote] @ s @ [dquote]"

text \<open>Events followed by the rest of a run that may have raised.\<close>

definition then_run :: "event list \<Rightarrow> event list \<times> error option \<Rightarrow> event list \<times> error option" where
  "then_run es r = (es @ fst r, snd r)"

section \<open>Image generator\<close>

text \<open>
  The loop of \<^verbatim>\<open>generate_images\<close> over the located files. The result is the events
  so far and the exception that left the loop, if any. The assignments to
  \<^verbatim>\<open>output.level\<close> and \<^verbatim>\<open>output.prefix\<close> only configure the logger and are left
  out.
\<close>

fun images_loop ::
  "world \<Rightarrow> path \<Rightarrow> path \<Rightarrow> path \<Rightarrow> path \<Rightarrow> solve_options \<Rightarrow> viewer \<Rightarrow> path list
    \<Rightarrow> event list \<times> error option" where
  "images_loop w images_dir examples_dir output_dir trunk options view [] = ([], None)"
| "images_loop w images_dir examples_dir output_dir trunk options view (ex_filename # rest) =
     (if basename ex_filename \<in> set omits
      then images_loop w images_dir examples_dir output_dir trunk options view rest
      else
        (let ebase = get_ebase examples_dir ex_filename;
             started = [Output (''trying '' @ quoted ebase @ ''...''), Solve ex_filename options]
         in case pde_solve w ex_filename options of
              Interrupted \<Rightarrow> (started, Some KeyboardInterrupt)
            | Failed \<Rightarrow>
                then_run (started @ [Output ''***** failed! *****'', Output ''...done''])
                  (images_loop w images_dir examples_dir output_dir trunk options view rest)
            | Solved problem \<Rightarrow>
                (let fig_filename = snd (get_fig_filename ebase images_dir);
                     filename = (if \<not> has_ts_conf problem then trunk @ ''.vtk''
                                 else ts_output_name problem);
                     view' = view\<lparr>view_filename := filename\<rparr>
                 in then_run
                      (started @
                       [Output (''displaying results from '' @ quoted filename),
                        Output (''to '' @ quoted (drop 1 (replace fig_filename (data_dir w) []))
                                @ ''...''),
                        Render view' False True fig_filename,
                        Clf,
                        Output ''...done'',
                        RemoveFiles output_dir,
                        Output ''...done''])
                      (images_loop w images_dir examples_dir output_dir trunk options view' rest))))"

text \<open>
  The options \<^verbatim>\<open>generate_images\<close> solves every example with, and the viewer it makes:
  \<^verbatim>\<open>Viewer('', output_dir=output_dir, offscreen=False)\<close>.
\<close>

definition image_options :: "path \<Rightarrow> solve_options" where
  "image_options trunk =
     \<lparr>output_filename_trunk = trunk, output_format = ''vtk'',
      save_ebc = False, save_regions = False, save_field_meshes = False,
      save_regions_as_groups = False, solve_not = False\<rparr>"

definition image_viewer :: "path \<Rightarrow> viewer" where
  "image_viewer output_dir =
     \<lparr>view_filename = [], view_output_dir = output_dir, offscreen = False\<rparr>"

definition generate_images :: "world \<Rightarrow> path \<Rightarrow> path \<Rightarrow> event list \<times> error option" where
  "generate_images w images_dir examples_dir =
     (let output_dir = mkdtemp w;
          trunk = join output_dir ''result'';
          options = image_options trunk;
          view = image_viewer output_dir
      in then_run [EnsurePath (images_dir @ [sep])]
           (images_loop w images_dir examples_dir output_dir trunk options view
              (locate_files w examples_dir)))"

section \<open>Thumbnail generator\<close>

fun thumbnails_loop :: "world \<Rightarrow> path \<Rightarrow> path list \<Rightarrow> event list" where
  "thumbnails_loop w thumbnails_dir [] = []"
| "thumbnails_loop w thumbnails_dir (fig_filename # rest) =
     (let ebase = drop 1 (replace fig_filename (data_dir w) []);
          base = basename fig_filename;
          thumb_filename = join thumbnails_dir base
      in [Output (quoted ebase), Thumbnail fig_filename thumb_filename]
         @ thumbnails_loop w thumbnails_dir rest)"

definition generate_thumbnails :: "world \<Rightarrow> path \<Rightarrow> path \<Rightarrow> event list" where
  "generate_thumbnails w thumbnails_dir images_dir =
     [EnsurePath (thumbnails_dir @ [sep]), Output ''generating thumbnails...'']
     @ thumbnails_loop w thumbnails_dir (glob_png w (join images_dir ''*.png''))
     @ [Output ''...done'']"

section \<open>Documentation tree builder\<close>

text \<open>The two page templates \<^verbatim>\<open>_index\<close> and \<^verbatim>\<open>_include\<close>, filled in.\<close>

definition index_text :: "string \<Rightarrow> string \<Rightarrow> string \<Rightarrow> string" where
  "index_text label title underline =
     ''.. _'' @ label @ ''-index:'' @ [newline, newline]
     @ title @ '' examples'' @ [newline]
     @ underline @ ''========='' @ [newline, newline]
     @ ''.. toctree::'' @ [newline]
     @ ''    :maxdepth: 2'' @ [newline, newline]"

definition include_text ::
  "string \<Rightarrow> string \<Rightarrow> string \<Rightarrow> string \<Rightarrow> string \<Rightarrow> string \<Rightarrow> string" where
  "include_text anchor title underline image_target download_target include_target =
     ''.. _'' @ anchor @ '':'' @ [newline, newline]
     @ title @ [newline]
     @ underline @ [newline, newline]
     @ ''.. image:: '' @ image_target @ [newline, newline]
     @ '':download:`source code <'' @ download_target @ ''>`'' @ [newline, newline]
     @ ''.. literalinclude:: '' @ include_target @ [newline, newline]"

text \<open>
  The dictionary \<^verbatim>\<open>dir_map\<close>, from a directory to its list of pairs of example file
  and page name, as an association list with one entry per key.
  \<^verbatim>\<open>dir_map.setdefault(k, []).append(v)\<close>:
\<close>

type_synonym dir_map = "(path \<times> (path \<times> path) list) list"

fun setdefault_append :: "path \<Rightarrow> path \<times> path \<Rightarrow> dir_map \<Rightarrow> dir_map" where
  "setdefault_append k v [] = [(k, [v])]"
| "setdefault_append k v ((k', vs) # m) =
     (if k = k' then (k', vs @ [v]) # m else (k', vs) # setdefault_append k v m)"

text \<open>The first loop of \<^verbatim>\<open>generate_rst_files\<close>: it fills \<^verbatim>\<open>dir_map\<close>.\<close>

fun group_examples :: "path \<Rightarrow> path list \<Rightarrow> dir_map \<Rightarrow> dir_map" where
  "group_examples examples_dir [] dir_map = dir_map"
| "group_examples examples_dir (ex_filename # rest) dir_map =
     (if basename ex_filename \<in> set omits then group_examples examples_dir rest dir_map
      else
        (let ebase = get_ebase examples_dir ex_filename;
             base_dir = dirname ebase;
             rst_filename = replace (basename ex_filename) ''.py'' ''.rst''
         in group_examples examples_dir rest
              (setdefault_append base_dir (ex_filename, rst_filename) dir_map)))"

text \<open>
  Modelled from the spec: \<^verbatim>\<open>ordered_iteritems\<close> of \<^verbatim>\<open>sfepy.base.base\<close> is not
  among the sources. The spec has the groups visited "sorted by key"; strings are
  ordered as Python orders them, character by character.
\<close>

definition ordered_iteritems :: "dir_map \<Rightarrow> dir_map" where
  "ordered_iteritems m = sort_key fst m"

text \<open>
  The loop over the examples of one directory. It returns the events and the lines it
  wrote to the index page of the directory.
\<close>

fun rst_examples ::
  "world \<Rightarrow> path \<Rightarrow> path \<Rightarrow> path \<Rightarrow> path \<Rightarrow> (path \<times> path) list \<Rightarrow> event list \<times> string" where
  "rst_examples w rst_dir examples_dir images_dir full_dirname [] = ([], [])"
| "rst_examples w rst_dir examples_dir images_dir full_dirname ((ex_filename, rst_filename) # rest) =
     (let full_rst_filename = join full_dirname rst_filename;
          rst_filename_ns = replace rst_filename ''.rst'' [];
          ebase = get_ebase examples_dir ex_filename;
          fig = get_fig_filename ebase images_dir;
          rst_fig_filename = make_sphinx_path (data_dir w) (snd fig) False;
          rst_ex_filename = make_sphinx_path (data_dir w) ex_filename False;
          src_ex_filename = make_sphinx_path (data_dir w) ex_filename True;
          later = rst_examples w rst_dir examples_dir images_dir full_dirname rest
      in ([Output (quoted (drop 1 (replace full_rst_filename rst_dir []))),
           WriteFile full_rst_filename
             (include_text (fst fig) ebase (replicate (length ebase) CHR ''='')
                rst_fig_filename src_ex_filename rst_ex_filename)]
          @ fst later,
          (''    '' @ rst_filename_ns @ [newline]) @ snd later))"

text \<open>
  The loop over the directories. It returns the events and the lines it wrote to the
  main index page.
\<close>

fun rst_dirs :: "world \<Rightarrow> path \<Rightarrow> path \<Rightarrow> path \<Rightarrow> dir_map \<Rightarrow> event list \<times> string" where
  "rst_dirs w rst_dir examples_dir images_dir [] = ([], [])"
| "rst_dirs w rst_dir examples_dir images_dir ((dir_name, filenames) # rest) =
     (let full_dirname = join rst_dir dir_name;
          pages = rst_examples w rst_dir examples_dir images_dir full_dirname filenames;
          later = rst_dirs w rst_dir examples_dir images_dir rest
      in ([EnsurePath (full_dirname @ [sep]), OpenFile (join full_dirname ''index.rst'')]
          @ fst pages
          @ [CloseFile (join full_dirname ''index.rst'')
               (index_text dir_name dir_name (replicate (length dir_name) CHR ''='') @ snd pages)]
          @ fst later,
          (''    '' @ dir_name @ ''/index'' @ [newline]) @ snd later))"

definition generate_rst_files :: "world \<Rightarrow> path \<Rightarrow> path \<Rightarrow> path \<Rightarrow> event list" where
  "generate_rst_files w rst_dir examples_dir images_dir =
     (let dir_map = group_examples examples_dir (locate_files w examples_dir) [];
          dirs = rst_dirs w rst_dir examples_dir images_dir (ordered_iteritems dir_map)
      in [EnsurePath (rst_dir @ [sep]), Output ''generating rst files...'',
          OpenFile (join rst_dir ''index.rst'')]
         @ fst dirs
         @ [CloseFile (join rst_dir ''index.rst'')
              (index_text ''sfepy'' ''SfePy autogenerated gallery'' (replicate 27 CHR ''='')
               @ snd dirs),
            Output ''...done''])"

text \<open>
  The pages on disk. Opening a file for writing empties it. What is written to a handle
  stays in the buffer of the handle and reaches the file when the handle is closed (the
  index pages are far shorter than a buffer): it is put at the start of the file, over
  what the file holds at that moment, and what the file holds beyond it stays. The other
  events leave the pages alone.
\<close>

type_synonym pages = "path \<rightharpoonup> string"

definition flushed :: "string \<Rightarrow> string option \<Rightarrow> string" where
  "flushed text held = text @ drop (length text) (case held of None \<Rightarrow> [] | Some old \<Rightarrow> old)"

fun apply_event :: "event \<Rightarrow> pages \<Rightarrow> pages" where
  "apply_event (OpenFile p) fs = fs(p \<mapsto> [])"
| "apply_event (CloseFile p text) fs = fs(p \<mapsto> flushed text (fs p))"
| "apply_event (WriteFile p text) fs = fs(p \<mapsto> text)"
| "apply_event _ fs = fs"

definition apply_events :: "event list \<Rightarrow> pages \<Rightarrow> pages" where
  "apply_events es fs = fold apply_event es fs"

section \<open>Driver\<close>

text \<open>The parsed command line, and the defaults of the option parser.\<close>

record options =
  opt_examples_dir :: string
  opt_images_dir :: "string option"
  opt_no_images :: bool
  opt_output_filename :: string

definition default_options :: options where
  "default_options =
     \<lparr>opt_examples_dir = ''examples'', opt_images_dir = None, opt_no_images = False,
      opt_output_filename = ''gallery/gallery.html''\<rparr>"

text \<open>
  Modelled from the spec: \<^verbatim>\<open>get_default\<close> of \<^verbatim>\<open>sfepy.base.base\<close> is not among the
  sources. The spec has the images directory default to its second argument, so the
  first argument is returned unless it is \<^verbatim>\<open>None\<close>.
\<close>

definition get_default :: "'a option \<Rightarrow> 'a \<Rightarrow> 'a" where
  "get_default arg dflt = (case arg of None \<Rightarrow> dflt | Some v \<Rightarrow> v)"

definition main :: "world \<Rightarrow> options \<Rightarrow> event list \<times> error option" where
  "main w opts =
     (let examples_dir = realpath w (opt_examples_dir opts);
          gallery_dir = dirname (realpath w (opt_output_filename opts));
          images_dir = get_default (opt_images_dir opts) (join gallery_dir ''images'');
          thumbnails_dir = join images_dir ''thumbnails'';
          rst_dir = join gallery_dir ''examples''
      in if \<not> opt_no_images opts then
           (case generate_images w images_dir examples_dir of
              (events, Some e) \<Rightarrow> (events, Some e)
            | (events, None) \<Rightarrow>
                (events @ generate_thumbnails w thumbnails_dir images_dir
                 @ generate_rst_files w rst_dir examples_dir images_dir, None))
         else (generate_rst_files w rst_dir examples_dir images_dir, None))"

section \<open>Notions for the statements\<close>

text \<open>
  Flattening, in the words of the specification: every directory separator is replaced
  by the one fixed character \<open>-\<close>.
\<close>

definition flatten :: "string \<Rightarrow> string" where
  "flatten s = map (\<lambda>c. if c = sep then CHR ''-'' else c) s"

text \<open>The examples that pass the exclusion test of both generators.\<close>

definition kept :: "path list \<Rightarrow> path list" where
  "kept files = filter (\<lambda>f. basename f \<notin> set omits) files"

text \<open>
  What C9 says of a call of the renderer: scalar bar on, no interactive display, and a
  viewer that works offscreen.
\<close>

fun rendered_offscreen :: "event \<Rightarrow> bool" where
  "rendered_offscreen (Render view show is_scalar_bar fig_filename) =
     (is_scalar_bar \<and> \<not> show \<and> offscreen view)"
| "rendered_offscreen _ = True"

text \<open>
  A small world to run the generators in: the data root is \<open>/s\<close>, the solver fails on
  \<open>a/ex2.py\<close>, is interrupted on \<open>b/ex4.py\<close> and solves the rest, \<open>b/ex3.py\<close> with
  time steps.
\<close>

definition demo_solve :: "path \<Rightarrow> solve_options \<Rightarrow> solve_result" where
  "demo_solve f opts =
     (if f = ''/s/examples/a/ex2.py'' then Failed
      else if f = ''/s/examples/b/ex4.py'' then Interrupted
      else if f = ''/s/examples/b/ex3.py''
        then Solved \<lparr>has_ts_conf = True, ts_output_name = ''/tmp/t/result.05.vtk''\<rparr>
      else Solved \<lparr>has_ts_conf = False, ts_output_name = []\<rparr>)"

definition demo_world :: "path list \<Rightarrow> world" where
  "demo_world files =
     \<lparr>data_dir = ''/s'', mkdtemp = ''/tmp/t'', locate_files = (\<lambda>d. files),
      pde_solve = demo_solve, glob_png = (\<lambda>pattern. [''/s/gallery/images/a-ex1.png'']),
      realpath = (\<lambda>p. join ''/s'' p)\<rparr>"

definition demo_options :: solve_options where
  "demo_options =
     \<lparr>output_filename_trunk = ''/tmp/t/result'', output_format = ''vtk'',
      save_ebc = False, save_regions = False, save_field_meshes = False,
      save_regions_as_groups = False, solve_not = False\<rparr>"

definition demo_view :: viewer where
  "demo_view = \<lparr>view_filename = [], view_output_dir = ''/tmp/t'', offscreen = False\<rparr>"

text \<open>
  The directory group of an example and the name of its content page, as the first loop
  of \<^verbatim>\<open>generate_rst_files\<close> computes them, and the members of a group in the order
  of discovery.
\<close>

definition group_key :: "path \<Rightarrow> path \<Rightarrow> path" where
  "group_key examples_dir f = dirname (get_ebase examples_dir f)"

definition page_name :: "path \<Rightarrow> path" where
  "page_name f = replace (basename f) ''.py'' ''.rst''"

definition members :: "path \<Rightarrow> path list \<Rightarrow> path \<Rightarrow> path list" where
  "members examples_dir files d = filter (\<lambda>f. group_key examples_dir f = d) (kept files)"

text \<open>The list stored under a key of \<^verbatim>\<open>dir_map\<close>, empty when the key is absent.\<close>

definition entries :: "dir_map \<Rightarrow> path \<Rightarrow> (path \<times> path) list" where
  "entries m d = (case map_of m d of None \<Rightarrow> [] | Some vs \<Rightarrow> vs)"

text \<open>The content page of an example.\<close>

definition content_page :: "world \<Rightarrow> path \<Rightarrow> path \<Rightarrow> path \<Rightarrow> string" where
  "content_page w examples_dir images_dir f =
     include_text (fst (get_fig_filename (get_ebase examples_dir f) images_dir))
       (get_ebase examples_dir f)
       (replicate (length (get_ebase examples_dir f)) CHR ''='')
       (make_sphinx_path (data_dir w)
          (snd (get_fig_filename (get_ebase examples_dir f) images_dir)) False)
       (make_sphinx_path (data_dir w) f True)
       (make_sphinx_path (data_dir w) f False)"

text \<open>The calls of the solver, the renderer and the thumbnailer among the events.\<close>

fun stage_call :: "event \<Rightarrow> bool" where
  "stage_call (Solve f opts) = True"
| "stage_call (Render view show is_scalar_bar fig_filename) = True"
| "stage_call (Thumbnail fig_filename thumb_filename) = True"
| "stage_call _ = False"

text \<open>The paths a run opens for writing, in order, one entry for every opening.\<close>

fun opened :: "event list \<Rightarrow> path list" where
  "opened [] = []"
| "opened (OpenFile p # es) = p # opened es"
| "opened (WriteFile p text # es) = p # opened es"
| "opened (e # es) = opened es"

text \<open>
  A run closes only what it opened: from the set \<open>T\<close> of the paths opened so far, every
  \<open>CloseFile\<close> is of a path opened before.
\<close>

fun closes_opened :: "path set \<Rightarrow> event list \<Rightarrow> bool" where
  "closes_opened T [] = True"
| "closes_opened T (OpenFile p # es) = closes_opened (insert p T) es"
| "closes_opened T (WriteFile p text # es) = closes_opened (insert p T) es"
| "closes_opened T (CloseFile p text # es) = (p \<in> T \<and> closes_opened T es)"
| "closes_opened T (e # es) = closes_opened T es"


text \<open>Whether \<open>old\<close> occurs in \<open>s\<close>; the empty string occurs everywhere.\<close>

fun occurs_in :: "string \<Rightarrow> string \<Rightarrow> bool" where
  "occurs_in old [] = (old = [])"
| "occurs_in old (c # cs) = (startswith (c # cs) old \<or> occurs_in old cs)"

section \<open>Properties of the path mapper\<close>

lemma startswith_single: "startswith (x # xs) [c] = (x = c)"
  by (simp add: startswith_def)

lemma replace_scan_char: "replace_scan [c] [d] s = map (\<lambda>x. if x = c then d else x) s"
  by (induction s) (simp_all add: startswith_single)

lemma replace_sep_flatten: "replace s [sep] ''-'' = flatten s"
  by (simp add: replace_def flatten_def replace_scan_char)

lemma sep_notin_flatten: "sep \<notin> set (flatten s)"
  by (auto simp: flatten_def sep_def)

lemma flatten_inj:
  "CHR ''-'' \<notin> set a \<Longrightarrow> CHR ''-'' \<notin> set b \<Longrightarrow> flatten a = flatten b \<Longrightarrow> a = b"
proof (induction a arbitrary: b)
  case Nil
  then show ?case by (simp add: flatten_def)
next
  case (Cons x a)
  then obtain y b' where b: "b = y # b'" by (cases b) (auto simp: flatten_def)
  with Cons.prems have "x = y" by (auto simp: flatten_def split: if_splits)
  moreover from Cons.prems b have "flatten a = flatten b'" by (simp add: flatten_def)
  ultimately show ?case using Cons b by simp
qed

lemma rfind_from_absent: "c \<notin> set s \<Longrightarrow> rfind_from c s i found = found"
  by (induction s arbitrary: i found) auto

lemma rfind_from_last:
  "c \<notin> set b \<Longrightarrow> rfind_from c (a @ c # b) i found = i + int (length a)"
  by (induction a arbitrary: i found) (simp_all add: rfind_from_absent)

lemma basename_no_sep: "sep \<notin> set x \<Longrightarrow> basename x = x"
  by (simp add: basename_def rfind_def rfind_from_absent)

lemma basename_after_sep:
  assumes "sep \<notin> set x" shows "basename (a @ sep # x) = x"
proof -
  have "rfind (a @ sep # x) sep = int (length a)"
    using assms by (simp add: rfind_def rfind_from_last)
  moreover have "nat (int (length a) + 1) = Suc (length a)" by simp
  ultimately show ?thesis by (simp add: basename_def)
qed

lemma startswith_sep_mem: "startswith x [sep] \<Longrightarrow> sep \<in> set x"
  by (cases x) (auto simp: startswith_def)

lemma basename_join:
  assumes "sep \<notin> set x" shows "basename (join d x) = x"
proof -
  have ns: "\<not> startswith x [sep]" using assms startswith_sep_mem by blast
  consider "d = []" | d' where "d = d' @ [sep]" | "d \<noteq> []" "last d \<noteq> sep"
    by (metis append_butlast_last_id)
  then show ?thesis
  proof cases
    case 1
    then show ?thesis using ns assms by (simp add: join_def basename_no_sep)
  next
    case 2
    then have "join d x = d' @ sep # x" using ns by (simp add: join_def)
    then show ?thesis using assms by (simp add: basename_after_sep)
  next
    case 3
    then have "join d x = d @ sep # x" using ns by (simp add: join_def)
    then show ?thesis using assms by (simp add: basename_after_sep)
  qed
qed

lemma join_inj:
  "\<not> startswith x [sep] \<Longrightarrow> \<not> startswith y [sep] \<Longrightarrow> join d x = join d y \<Longrightarrow> x = y"
  by (auto simp: join_def split: if_splits)

lemma splitext_append: "fst (splitext p) @ snd (splitext p) = p"
  by (simp add: splitext_def Let_def)

lemma get_fig_filename_flatten:
  "get_fig_filename p d = (flatten (fst (splitext p)), join d (flatten (fst (splitext p)) @ ''.png''))"
  by (simp add: get_fig_filename_def Let_def replace_sep_flatten)

lemma png_name_no_sep: "sep \<notin> set (flatten s @ ''.png'')"
  using sep_notin_flatten by (auto simp: sep_def)

lemma fig_filename_eq_iff:
  "snd (get_fig_filename p d) = snd (get_fig_filename q d)
   \<longleftrightarrow> flatten (fst (splitext p)) = flatten (fst (splitext q))"
proof
  assume "snd (get_fig_filename p d) = snd (get_fig_filename q d)"
  then have "join d (flatten (fst (splitext p)) @ ''.png'') = join d (flatten (fst (splitext q)) @ ''.png'')"
    by (simp add: get_fig_filename_flatten)
  moreover have "\<not> startswith (flatten (fst (splitext p)) @ ''.png'') [sep]"
    "\<not> startswith (flatten (fst (splitext q)) @ ''.png'') [sep]"
    using png_name_no_sep startswith_sep_mem by blast+
  ultimately have "flatten (fst (splitext p)) @ ''.png'' = flatten (fst (splitext q)) @ ''.png''"
    using join_inj by blast
  then show "flatten (fst (splitext p)) = flatten (fst (splitext q))" by simp
next
  assume "flatten (fst (splitext p)) = flatten (fst (splitext q))"
  then show "snd (get_fig_filename p d) = snd (get_fig_filename q d)"
    by (simp add: get_fig_filename_flatten)
qed

lemma root_subset: "set (fst (splitext p)) \<subseteq> set p"
  by (auto simp: splitext_def Let_def dest: in_set_takeD)

text \<open>
  C3, as amended. The image path of an example is a function of its relative path \<open>p\<close>
  and the images directory \<open>d\<close> alone: the extension that \<open>splitext\<close> finds is
  cut off, the rest is flattened, \<open>.png\<close> is appended and the name is joined under
  \<open>d\<close>. The name has no separator in it and is the last component of the image path.
  Two different relative paths with the same extension and without the character \<open>-\<close>
  have different image paths. (Without that restriction the derivation is not injective.)
\<close>

theorem image_path_for_derivation:
  "get_fig_filename p d
     = (flatten (fst (splitext p)), join d (flatten (fst (splitext p)) @ ''.png''))
   \<and> fst (splitext p) @ snd (splitext p) = p
   \<and> sep \<notin> set (fst (get_fig_filename p d) @ ''.png'')
   \<and> basename (snd (get_fig_filename p d)) = fst (get_fig_filename p d) @ ''.png''
   \<and> (p \<noteq> q \<and> snd (splitext p) = snd (splitext q) \<and> CHR ''-'' \<notin> set p \<and> CHR ''-'' \<notin> set q
        \<longrightarrow> snd (get_fig_filename p d) \<noteq> snd (get_fig_filename q d))"
proof (intro conjI impI)
  show "get_fig_filename p d
     = (flatten (fst (splitext p)), join d (flatten (fst (splitext p)) @ ''.png''))"
    by (rule get_fig_filename_flatten)
  show "fst (splitext p) @ snd (splitext p) = p" by (rule splitext_append)
  show "sep \<notin> set (fst (get_fig_filename p d) @ ''.png'')"
    using png_name_no_sep by (simp add: get_fig_filename_flatten)
  show "basename (snd (get_fig_filename p d)) = fst (get_fig_filename p d) @ ''.png''"
    using basename_join [OF png_name_no_sep] by (simp add: get_fig_filename_flatten)
next
  assume h: "p \<noteq> q \<and> snd (splitext p) = snd (splitext q) \<and> CHR ''-'' \<notin> set p \<and> CHR ''-'' \<notin> set q"
  show "snd (get_fig_filename p d) \<noteq> snd (get_fig_filename q d)"
  proof
    assume "snd (get_fig_filename p d) = snd (get_fig_filename q d)"
    then have "flatten (fst (splitext p)) = flatten (fst (splitext q))"
      by (simp add: fig_filename_eq_iff)
    moreover have "CHR ''-'' \<notin> set (fst (splitext p))" "CHR ''-'' \<notin> set (fst (splitext q))"
      using h root_subset by blast+
    ultimately have "fst (splitext p) = fst (splitext q)" using flatten_inj by blast
    with h have "fst (splitext p) @ snd (splitext p) = fst (splitext q) @ snd (splitext q)" by simp
    then have "p = q" by (simp only: splitext_append)
    with h show False by simp
  qed
qed

theorem image_path_for_derivation_witness:
  "''a/ex1.py'' \<noteq> ''a/ex2.py''
   \<and> snd (splitext ''a/ex1.py'') = snd (splitext ''a/ex2.py'')
   \<and> CHR ''-'' \<notin> set ''a/ex1.py'' \<and> CHR ''-'' \<notin> set ''a/ex2.py''
   \<and> snd (get_fig_filename ''a/ex1.py'' ''images'')
       \<noteq> snd (get_fig_filename ''a/ex2.py'' ''images'')"
proof -
  have hyp: "''a/ex1.py'' \<noteq> ''a/ex2.py''
      \<and> snd (splitext ''a/ex1.py'') = snd (splitext ''a/ex2.py'')
      \<and> CHR ''-'' \<notin> set ''a/ex1.py'' \<and> CHR ''-'' \<notin> set ''a/ex2.py''"
    by code_simp
  with image_path_for_derivation [of "''a/ex1.py''" "''images''" "''a/ex2.py''"]
  show ?thesis by blast
qed

text \<open>
  C3 as stated fails: the derivation is not injective on every corpus. The examples
  \<open>a/b.py\<close> and \<open>a-b.py\<close> both get the image \<open>images/a-b.png\<close>.
\<close>

theorem image_path_not_injective:
  "snd (get_fig_filename ''a/b.py'' ''images'') = snd (get_fig_filename ''a-b.py'' ''images'')
   \<and> ''a/b.py'' \<noteq> ''a-b.py''"
  by code_simp

section \<open>Properties of the image generator\<close>

lemma then_run_then_run: "then_run es (then_run es' r) = then_run (es @ es') r"
  by (simp add: then_run_def)

lemma then_run_Nil: "then_run [] r = r"
  by (simp add: then_run_def)

lemma images_loop_view_filename:
  "images_loop w idir edir odir trunk opts (view\<lparr>view_filename := x\<rparr>) fs
   = images_loop w idir edir odir trunk opts view fs"
  by (induction fs arbitrary: view) (simp_all add: Let_def split: solve_result.splits)

lemma images_loop_append:
  "images_loop w idir edir odir trunk opts view (pre @ post)
   = (case snd (images_loop w idir edir odir trunk opts view pre) of
        Some e \<Rightarrow> images_loop w idir edir odir trunk opts view pre
      | None \<Rightarrow> then_run (fst (images_loop w idir edir odir trunk opts view pre))
                  (images_loop w idir edir odir trunk opts view post))"
proof (induction pre arbitrary: view)
  case Nil
  show ?case by (simp add: then_run_Nil)
next
  case (Cons f pre)
  show ?case
    by (simp add: Let_def Cons.IH images_loop_view_filename then_run_def
          split: solve_result.splits option.splits)
qed

text \<open>
  C7, as amended. When the solve of an example succeeds, the scratch directory is removed
  after the rendering and before the loop goes on to the next example. When the solve
  fails, the example removes nothing: the removal is inside the branch of a solved problem.
\<close>

theorem scratch_removed_after_success:
  "(basename f \<notin> set omits \<and> snd (images_loop w idir edir odir trunk opts view pre) = None
    \<and> pde_solve w f opts = Solved problem \<longrightarrow>
      images_loop w idir edir odir trunk opts view (pre @ f # post)
      = then_run
          (fst (images_loop w idir edir odir trunk opts view pre)
           @ [Output (''trying '' @ quoted (get_ebase edir f) @ ''...''), Solve f opts,
              Output (''displaying results from ''
                      @ quoted (if \<not> has_ts_conf problem then trunk @ ''.vtk''
                                else ts_output_name problem)),
              Output (''to ''
                      @ quoted (drop 1 (replace (snd (get_fig_filename (get_ebase edir f) idir))
                                          (data_dir w) []))
                      @ ''...''),
              Render (view\<lparr>view_filename := (if \<not> has_ts_conf problem then trunk @ ''.vtk''
                                               else ts_output_name problem)\<rparr>)
                False True (snd (get_fig_filename (get_ebase edir f) idir)),
              Clf, Output ''...done'', RemoveFiles odir, Output ''...done''])
          (images_loop w idir edir odir trunk opts view post))
   \<and> (basename f \<notin> set omits \<and> pde_solve w f opts = Failed \<longrightarrow>
        RemoveFiles odir \<notin> set (fst (images_loop w idir edir odir trunk opts view [f])))"
  by (simp add: images_loop_append [of _ _ _ _ _ _ _ pre] Let_def then_run_def
        images_loop_view_filename)

text \<open>The same in the small world, for a solved and for a failed example.\<close>

theorem scratch_removed_after_success_witness:
  "images_loop (demo_world []) ''/s/gallery/images'' ''/s/examples'' ''/tmp/t''
     ''/tmp/t/result'' demo_options demo_view [''/s/examples/b/ex3.py'', ''/s/examples/a/ex1.py'']
   = then_run
       [Output (''trying '' @ quoted ''b/ex3.py'' @ ''...''),
        Solve ''/s/examples/b/ex3.py'' demo_options,
        Output (''displaying results from '' @ quoted ''/tmp/t/result.05.vtk''),
        Output (''to '' @ quoted ''gallery/images/b-ex3.png'' @ ''...''),
        Render (demo_view\<lparr>view_filename := ''/tmp/t/result.05.vtk''\<rparr>) False True
          ''/s/gallery/images/b-ex3.png'',
        Clf, Output ''...done'', RemoveFiles ''/tmp/t'', Output ''...done'']
       (images_loop (demo_world []) ''/s/gallery/images'' ''/s/examples'' ''/tmp/t''
          ''/tmp/t/result'' demo_options demo_view [''/s/examples/a/ex1.py''])
   \<and> RemoveFiles ''/tmp/t''
       \<notin> set (fst (images_loop (demo_world []) ''/s/gallery/images'' ''/s/examples'' ''/tmp/t''
                     ''/tmp/t/result'' demo_options demo_view [''/s/examples/a/ex2.py'']))"
proof -
  have kept3: "basename ''/s/examples/b/ex3.py'' \<notin> set omits"
    and kept2: "basename ''/s/examples/a/ex2.py'' \<notin> set omits"
    by code_simp+
  have solved: "pde_solve (demo_world []) ''/s/examples/b/ex3.py'' demo_options
      = Solved \<lparr>has_ts_conf = True, ts_output_name = ''/tmp/t/result.05.vtk''\<rparr>"
    and failed: "pde_solve (demo_world []) ''/s/examples/a/ex2.py'' demo_options = Failed"
    by code_simp+
  have e3: "get_ebase ''/s/examples'' ''/s/examples/b/ex3.py'' = ''b/ex3.py''"
    and fig: "snd (get_fig_filename ''b/ex3.py'' ''/s/gallery/images'')
      = ''/s/gallery/images/b-ex3.png''"
    and shown: "drop 1 (replace ''/s/gallery/images/b-ex3.png'' (data_dir (demo_world [])) [])
      = ''gallery/images/b-ex3.png''"
    by code_simp+
  show ?thesis
    using scratch_removed_after_success [of "''/s/examples/b/ex3.py''" "demo_world []"
        "''/s/gallery/images''" "''/s/examples''" "''/tmp/t''" "''/tmp/t/result''"
        demo_options demo_view "[]"
        "\<lparr>has_ts_conf = True, ts_output_name = ''/tmp/t/result.05.vtk''\<rparr>"
        "[''/s/examples/a/ex1.py'']"]
      scratch_removed_after_success [of "''/s/examples/a/ex2.py''" "demo_world []"
        "''/s/gallery/images''" "''/s/examples''" "''/tmp/t''" "''/tmp/t/result''"
        demo_options demo_view "[]"
        "\<lparr>has_ts_conf = False, ts_output_name = []\<rparr>" "[]"]
      kept3 kept2 solved failed e3 fig shown
    by simp
qed

text \<open>
  C7 as stated fails: when the solve of \<open>a/ex2.py\<close> fails, the loop goes on to
  \<open>a/ex1.py\<close> without removing the scratch directory; the first removal is the one after
  the rendering of \<open>a/ex1.py\<close>.
\<close>

theorem scratch_kept_after_failure:
  "fst (generate_images (demo_world [''/s/examples/a/ex2.py'', ''/s/examples/a/ex1.py''])
         ''/s/gallery/images'' ''/s/examples'')
   = [EnsurePath ''/s/gallery/images/'',
      Output (''trying '' @ quoted ''a/ex2.py'' @ ''...''),
      Solve ''/s/examples/a/ex2.py'' demo_options,
      Output ''***** failed! *****'',
      Output ''...done'',
      Output (''trying '' @ quoted ''a/ex1.py'' @ ''...''),
      Solve ''/s/examples/a/ex1.py'' demo_options,
      Output (''displaying results from '' @ quoted ''/tmp/t/result.vtk''),
      Output (''to '' @ quoted ''gallery/images/a-ex1.png'' @ ''...''),
      Render (demo_view\<lparr>view_filename := ''/tmp/t/result.vtk''\<rparr>) False True
        ''/s/gallery/images/a-ex1.png'',
      Clf, Output ''...done'', RemoveFiles ''/tmp/t'', Output ''...done'']
   \<and> RemoveFiles ''/tmp/t''
       \<notin> set (take 6 (fst (generate_images
                  (demo_world [''/s/examples/a/ex2.py'', ''/s/examples/a/ex1.py''])
                  ''/s/gallery/images'' ''/s/examples'')))"
  by code_simp

lemma kept_Nil: "kept [] = []"
  by (simp add: kept_def)

lemma kept_Cons:
  "kept (f # fs) = (if basename f \<in> set omits then kept fs else f # kept fs)"
  by (simp add: kept_def)

lemma images_loop_kept:
  "images_loop w idir edir odir trunk opts view fs
   = images_loop w idir edir odir trunk opts view (kept fs)"
  by (induction fs arbitrary: view)
     (simp_all add: kept_Nil kept_Cons Let_def split: solve_result.splits)

lemma images_loop_render:
  "Render v sh bar fig \<in> set (fst (images_loop w idir edir odir trunk opts view fs)) \<Longrightarrow>
     bar \<and> \<not> sh \<and> offscreen v = offscreen view \<and> view_output_dir v = view_output_dir view
     \<and> (\<exists>f \<in> set (kept fs). fig = snd (get_fig_filename (get_ebase edir f) idir))"
proof (induction fs arbitrary: view)
  case Nil
  then show ?case by simp
next
  case (Cons f fs)
  show ?case
  proof (cases "basename f \<in> set omits")
    case True
    with Cons.prems
    have "Render v sh bar fig \<in> set (fst (images_loop w idir edir odir trunk opts view fs))"
      by simp
    from Cons.IH [OF this] True show ?thesis by (simp add: kept_Cons)
  next
    case False
    show ?thesis
    proof (cases "pde_solve w f opts")
      case (Solved problem)
      with False Cons.prems
      consider "Render v sh bar fig
          = Render (view\<lparr>view_filename := (if \<not> has_ts_conf problem then trunk @ ''.vtk''
                                           else ts_output_name problem)\<rparr>)
              False True (snd (get_fig_filename (get_ebase edir f) idir))"
        | "Render v sh bar fig \<in> set (fst (images_loop w idir edir odir trunk opts view fs))"
        by (auto simp: Let_def then_run_def images_loop_view_filename)
      then show ?thesis
      proof cases
        case 1
        with False show ?thesis by (auto simp: kept_Cons)
      next
        case 2
        from Cons.IH [OF 2] False show ?thesis by (auto simp: kept_Cons)
      qed
    next
      case Failed
      with False Cons.prems
      have "Render v sh bar fig \<in> set (fst (images_loop w idir edir odir trunk opts view fs))"
        by (auto simp: Let_def then_run_def)
      from Cons.IH [OF this] False show ?thesis by (auto simp: kept_Cons)
    next
      case Interrupted
      with False Cons.prems show ?thesis by (auto simp: Let_def)
    qed
  qed
qed

text \<open>
  C9, as amended. Every call of the renderer in \<open>generate_images\<close> has the scalar bar
  on and \<open>show\<close> off, and writes to the image path that \<open>get_fig_filename\<close> gives for
  a located example that is not left out. The viewer of the call is bound to the scratch
  directory and was made with \<open>offscreen=False\<close>.
\<close>

theorem renderer_invocations:
  "Render v sh bar fig \<in> set (fst (generate_images w images_dir examples_dir)) \<longrightarrow>
     bar \<and> \<not> sh \<and> \<not> offscreen v \<and> view_output_dir v = mkdtemp w
     \<and> (\<exists>f \<in> set (kept (locate_files w examples_dir)).
           fig = snd (get_fig_filename (get_ebase examples_dir f) images_dir))"
proof
  assume "Render v sh bar fig \<in> set (fst (generate_images w images_dir examples_dir))"
  then have "Render v sh bar fig
      \<in> set (fst (images_loop w images_dir examples_dir (mkdtemp w) (join (mkdtemp w) ''result'')
          (image_options (join (mkdtemp w) ''result'')) (image_viewer (mkdtemp w))
          (locate_files w examples_dir)))"
    by (simp add: generate_images_def Let_def then_run_def)
  from images_loop_render [OF this]
  show "bar \<and> \<not> sh \<and> \<not> offscreen v \<and> view_output_dir v = mkdtemp w
     \<and> (\<exists>f \<in> set (kept (locate_files w examples_dir)).
           fig = snd (get_fig_filename (get_ebase examples_dir f) images_dir))"
    by (simp add: image_viewer_def)
qed

text \<open>The call for \<open>a/ex1.py\<close> in the small world.\<close>

theorem renderer_invocations_witness:
  "Render (demo_view\<lparr>view_filename := ''/tmp/t/result.vtk''\<rparr>) False True
       ''/s/gallery/images/a-ex1.png''
     \<in> set (fst (generate_images (demo_world [''/s/examples/a/ex1.py''])
                   ''/s/gallery/images'' ''/s/examples''))
   \<and> \<not> offscreen (demo_view\<lparr>view_filename := ''/tmp/t/result.vtk''\<rparr>)
   \<and> view_output_dir (demo_view\<lparr>view_filename := ''/tmp/t/result.vtk''\<rparr>)
       = mkdtemp (demo_world [''/s/examples/a/ex1.py''])"
proof -
  have called: "Render (demo_view\<lparr>view_filename := ''/tmp/t/result.vtk''\<rparr>) False True
       ''/s/gallery/images/a-ex1.png''
     \<in> set (fst (generate_images (demo_world [''/s/examples/a/ex1.py''])
                   ''/s/gallery/images'' ''/s/examples''))"
    by code_simp
  with renderer_invocations [of "demo_view\<lparr>view_filename := ''/tmp/t/result.vtk''\<rparr>" False
      True "''/s/gallery/images/a-ex1.png''" "demo_world [''/s/examples/a/ex1.py'']"
      "''/s/gallery/images''" "''/s/examples''"]
  show ?thesis by blast
qed

text \<open>
  C9 as stated fails: in the run over \<open>a/ex1.py\<close> the renderer is called on a viewer
  that is not offscreen.
\<close>

theorem renderer_not_offscreen:
  "\<not> list_all rendered_offscreen
       (fst (generate_images (demo_world [''/s/examples/a/ex1.py''])
               ''/s/gallery/images'' ''/s/examples''))"
  by code_simp

section \<open>Properties of the documentation tree builder\<close>


lemma rst_examples_page:
  "(f, rst) \<in> set fns \<Longrightarrow>
     WriteFile (join full rst) (content_page w e i f) \<in> set (fst (rst_examples w r e i full fns))"
  by (induction fns) (auto simp: Let_def content_page_def)

lemma rst_examples_no_stage_call: "filter stage_call (fst (rst_examples w r e i full fns)) = []"
  by (induction fns) (auto simp: Let_def)


lemma rst_dirs_pages:
  "(d, fns) \<in> set m \<Longrightarrow>
     set (fst (rst_examples w r e i (join r d) fns)) \<subseteq> set (fst (rst_dirs w r e i m))"
  by (induction m) (auto simp: Let_def)


lemma rst_dirs_no_stage_call: "filter stage_call (fst (rst_dirs w r e i m)) = []"
  by (induction m) (auto simp: Let_def rst_examples_no_stage_call)

lemma setdefault_append_keys: "fst ` set (setdefault_append k v m) = insert k (fst ` set m)"
proof (induction m)
  case Nil
  show ?case by simp
next
  case (Cons p m)
  obtain k' vs where p: "p = (k', vs)" by (cases p)
  show ?case
  proof (cases "k = k'")
    case True
    with p show ?thesis by auto
  next
    case False
    with p Cons.IH show ?thesis by (simp add: insert_commute)
  qed
qed

lemma entries_Nil: "entries [] d = []"
  by (simp add: entries_def)

lemma setdefault_append_distinct:
  "distinct (map fst m) \<Longrightarrow> distinct (map fst (setdefault_append k v m))"
  by (induction m) (auto simp: setdefault_append_keys)

lemma setdefault_append_entries:
  "entries (setdefault_append k v m) d = (if d = k then entries m k @ [v] else entries m d)"
  by (induction m) (auto simp: entries_def)

lemma group_examples_keys:
  "fst ` set (group_examples e files m) = fst ` set m \<union> group_key e ` set (kept files)"
  by (induction files arbitrary: m)
     (auto simp: kept_def Let_def setdefault_append_keys group_key_def)

lemma group_examples_distinct:
  "distinct (map fst m) \<Longrightarrow> distinct (map fst (group_examples e files m))"
  by (induction files arbitrary: m) (auto simp: Let_def setdefault_append_distinct)

lemma group_examples_entries:
  "entries (group_examples e files m) d
   = entries m d @ map (\<lambda>f. (f, page_name f)) (members e files d)"
  by (induction files arbitrary: m)
     (auto simp: members_def kept_def Let_def setdefault_append_entries group_key_def page_name_def)

lemma group_examples_kept: "group_examples e files m = group_examples e (kept files) m"
  by (induction files arbitrary: m) (auto simp: kept_def Let_def)

lemma group_examples_member:
  assumes "d \<in> group_key e ` set (kept files)"
  shows "(d, map (\<lambda>f. (f, page_name f)) (members e files d)) \<in> set (group_examples e files [])"
proof -
  from assms have "d \<in> fst ` set (group_examples e files [])"
    by (simp add: group_examples_keys)
  then obtain vs where vs: "(d, vs) \<in> set (group_examples e files [])" by auto
  have dist: "distinct (map fst (group_examples e files []))"
    by (simp add: group_examples_distinct)
  with vs have "map_of (group_examples e files []) d = Some vs" by simp
  then have "entries (group_examples e files []) d = vs" by (simp add: entries_def)
  moreover have "entries (group_examples e files []) d
      = map (\<lambda>f. (f, page_name f)) (members e files d)"
    by (simp add: group_examples_entries entries_Nil)
  ultimately have "vs = map (\<lambda>f. (f, page_name f)) (members e files d)" by simp
  with vs show ?thesis by simp
qed


lemma ordered_iteritems_set: "set (ordered_iteritems m) = set m"
  by (simp add: ordered_iteritems_def)


lemma kept_page_written:
  assumes "f \<in> set (kept (locate_files w examples_dir))"
  shows "WriteFile (join (join rst_dir (group_key examples_dir f)) (page_name f))
           (content_page w examples_dir images_dir f)
         \<in> set (generate_rst_files w rst_dir examples_dir images_dir)"
proof -
  let ?d = "group_key examples_dir f"
  let ?fns = "map (\<lambda>f. (f, page_name f)) (members examples_dir (locate_files w examples_dir) ?d)"
  let ?m = "ordered_iteritems (group_examples examples_dir (locate_files w examples_dir) [])"
  from assms have "?d \<in> group_key examples_dir ` set (kept (locate_files w examples_dir))"
    by simp
  then have in_map: "(?d, ?fns) \<in> set ?m"
    by (simp only: ordered_iteritems_set group_examples_member)
  from assms have "(f, page_name f) \<in> set ?fns" by (simp add: members_def)
  then have "WriteFile (join (join rst_dir ?d) (page_name f))
        (content_page w examples_dir images_dir f)
      \<in> set (fst (rst_examples w rst_dir examples_dir images_dir (join rst_dir ?d) ?fns))"
    by (rule rst_examples_page)
  with rst_dirs_pages [OF in_map, of w rst_dir examples_dir images_dir]
  have "WriteFile (join (join rst_dir ?d) (page_name f))
        (content_page w examples_dir images_dir f)
      \<in> set (fst (rst_dirs w rst_dir examples_dir images_dir ?m))"
    by blast
  then show ?thesis by (simp add: generate_rst_files_def Let_def)
qed

text \<open>
  C5. For every located example that is not left out, \<open>generate_rst_files\<close> writes a
  content page that is exactly: the anchor made of the flattened base name of the image, the
  relative name of the example as the title with its underline, the image directive with
  the absolute-style reference to the image path, the download link with the
  relative-style reference to the source, and the literal include with the
  absolute-style reference to the source.
\<close>

theorem content_pages:
  assumes "f \<in> set (locate_files w examples_dir)" and "basename f \<notin> set omits"
    and "ebase = get_ebase examples_dir f"
    and "fig = get_fig_filename ebase images_dir"
  shows "WriteFile
           (join (join rst_dir (dirname ebase)) (replace (basename f) ''.py'' ''.rst''))
           (''.. _'' @ fst fig @ '':'' @ [newline, newline]
            @ ebase @ [newline]
            @ replicate (length ebase) CHR ''='' @ [newline, newline]
            @ ''.. image:: '' @ make_sphinx_path (data_dir w) (snd fig) False
            @ [newline, newline]
            @ '':download:`source code <'' @ make_sphinx_path (data_dir w) f True @ ''>`''
            @ [newline, newline]
            @ ''.. literalinclude:: '' @ make_sphinx_path (data_dir w) f False
            @ [newline, newline])
         \<in> set (generate_rst_files w rst_dir examples_dir images_dir)"
proof -
  from assms(1,2) have "f \<in> set (kept (locate_files w examples_dir))"
    by (simp add: kept_def)
  from kept_page_written [OF this, of rst_dir images_dir] assms(3,4)
  show ?thesis
    by (simp add: content_page_def include_text_def group_key_def page_name_def)
qed

text \<open>
The content page of \<open>a/ex1.py\<close> in the small world.
\<close>

theorem content_pages_witness:
  "WriteFile ''/s/gallery/examples/a/ex1.rst''
     (''.. _a-ex1:'' @ [newline, newline]
      @ ''a/ex1.py'' @ [newline]
      @ ''========'' @ [newline, newline]
      @ ''.. image:: /../gallery/images/a-ex1.png'' @ [newline, newline]
      @ '':download:`source code <../../../examples/a/ex1.py>`'' @ [newline, newline]
      @ ''.. literalinclude:: /../examples/a/ex1.py'' @ [newline, newline])
   \<in> set (generate_rst_files (demo_world [''/s/examples/a/ex1.py''])
             ''/s/gallery/examples'' ''/s/examples'' ''/s/gallery/images'')"
proof -
  let ?w = "demo_world [''/s/examples/a/ex1.py'']"
  have located: "''/s/examples/a/ex1.py'' \<in> set (locate_files ?w ''/s/examples'')"
    and not_omitted: "basename ''/s/examples/a/ex1.py'' \<notin> set omits"
    and ebase: "''a/ex1.py'' = get_ebase ''/s/examples'' ''/s/examples/a/ex1.py''"
    and fig: "(''a-ex1'', ''/s/gallery/images/a-ex1.png'')
      = get_fig_filename ''a/ex1.py'' ''/s/gallery/images''"
    by code_simp+
  have path: "join (join ''/s/gallery/examples'' (dirname ''a/ex1.py''))
        (replace (basename ''/s/examples/a/ex1.py'') ''.py'' ''.rst'')
      = ''/s/gallery/examples/a/ex1.rst''"
    and image: "make_sphinx_path (data_dir ?w) ''/s/gallery/images/a-ex1.png'' False
      = ''/../gallery/images/a-ex1.png''"
    and download: "make_sphinx_path (data_dir ?w) ''/s/examples/a/ex1.py'' True
      = ''../../../examples/a/ex1.py''"
    and literal: "make_sphinx_path (data_dir ?w) ''/s/examples/a/ex1.py'' False
      = ''/../examples/a/ex1.py''"
    by code_simp+
  from content_pages [OF located not_omitted ebase fig, of "''/s/gallery/examples''"]
  show ?thesis
    by (simp only: path image download literal fst_conv snd_conv) simp
qed

section \<open>The pages on disk\<close>

lemma apply_events_Nil: "apply_events [] fs = fs"
  by (simp add: apply_events_def)

lemma apply_events_Cons: "apply_events (e # es) fs = apply_events es (apply_event e fs)"
  by (simp add: apply_events_def)

lemma apply_events_kept: "fs p \<noteq> None \<Longrightarrow> apply_events es fs p \<noteq> None"
proof (induction es arbitrary: fs)
  case Nil
  then show ?case by (simp add: apply_events_Nil)
next
  case (Cons e es)
  from Cons.prems have "apply_event e fs p \<noteq> None" by (cases e) auto
  then show ?case by (simp add: apply_events_Cons Cons.IH)
qed

lemma apply_events_opened: "p \<in> set (opened es) \<Longrightarrow> apply_events es fs p \<noteq> None"
proof (induction es arbitrary: fs)
  case Nil
  then show ?case by simp
next
  case (Cons e es)
  show ?case
  proof (cases "p \<in> set (opened es)")
    case True
    then show ?thesis by (simp add: apply_events_Cons Cons.IH)
  next
    case False
    with Cons.prems have "apply_event e fs p \<noteq> None" by (cases e) auto
    then show ?thesis by (simp add: apply_events_Cons apply_events_kept)
  qed
qed

lemma apply_events_agree:
  "closes_opened T es \<Longrightarrow> \<forall>q \<in> T. fs q = fs' q \<Longrightarrow> p \<in> T \<union> set (opened es) \<Longrightarrow>
     apply_events es fs p = apply_events es fs' p"
proof (induction es arbitrary: T fs fs')
  case Nil
  then show ?case by (simp add: apply_events_Nil)
next
  case (Cons e es)
  show ?case
  proof (cases e)
    case (OpenFile q)
    with Cons.prems have "closes_opened (insert q T) es"
      and "\<forall>r \<in> insert q T. apply_event e fs r = apply_event e fs' r"
      and "p \<in> insert q T \<union> set (opened es)"
      by auto
    then show ?thesis by (simp add: apply_events_Cons Cons.IH)
  next
    case (WriteFile q t)
    with Cons.prems have "closes_opened (insert q T) es"
      and "\<forall>r \<in> insert q T. apply_event e fs r = apply_event e fs' r"
      and "p \<in> insert q T \<union> set (opened es)"
      by auto
    then show ?thesis by (simp add: apply_events_Cons Cons.IH)
  next
    case (CloseFile q t)
    with Cons.prems have "closes_opened T es"
      and "\<forall>r \<in> T. apply_event e fs r = apply_event e fs' r"
      and "p \<in> T \<union> set (opened es)"
      by auto
    then show ?thesis by (simp add: apply_events_Cons Cons.IH)
  qed (insert Cons.prems Cons.IH, auto simp: apply_events_Cons)
qed

lemma apply_events_untouched:
  "closes_opened T es \<Longrightarrow> p \<notin> T \<union> set (opened es) \<Longrightarrow> apply_events es fs p = fs p"
proof (induction es arbitrary: T fs)
  case Nil
  then show ?case by (simp add: apply_events_Nil)
next
  case (Cons e es)
  show ?case
  proof (cases e)
    case (OpenFile q)
    with Cons.prems have "closes_opened (insert q T) es" and "p \<notin> insert q T \<union> set (opened es)"
      by auto
    from Cons.IH [OF this] OpenFile Cons.prems show ?thesis
      by (auto simp: apply_events_Cons)
  next
    case (WriteFile q t)
    with Cons.prems have "closes_opened (insert q T) es" and "p \<notin> insert q T \<union> set (opened es)"
      by auto
    from Cons.IH [OF this] WriteFile Cons.prems show ?thesis
      by (auto simp: apply_events_Cons)
  next
    case (CloseFile q t)
    with Cons.prems have "closes_opened T es" and "p \<notin> T \<union> set (opened es)" and "p \<noteq> q"
      by auto
    from Cons.IH [OF this(1,2)] CloseFile this(3) show ?thesis
      by (auto simp: apply_events_Cons)
  qed (insert Cons.prems Cons.IH, auto simp: apply_events_Cons)
qed

lemma apply_events_twice:
  assumes "closes_opened {} es"
  shows "apply_events es (apply_events es fs) = apply_events es fs"
proof (rule ext)
  fix p
  show "apply_events es (apply_events es fs) p = apply_events es fs p"
  proof (cases "p \<in> set (opened es)")
    case True
    with assms show ?thesis by (intro apply_events_agree [of "{}"]) auto
  next
    case False
    with assms have "\<And>fs'. apply_events es fs' p = fs' p"
      by (intro apply_events_untouched [of "{}"]) auto
    then show ?thesis by simp
  qed
qed


lemma closes_opened_append:
  "closes_opened T (es @ es') = (closes_opened T es \<and> closes_opened (T \<union> set (opened es)) es')"
  by (induction T es rule: closes_opened.induct) auto

lemma rst_examples_closes: "closes_opened T (fst (rst_examples w r e i full fns))"
  by (induction fns arbitrary: T) (auto simp: Let_def)

lemma rst_dirs_closes: "closes_opened T (fst (rst_dirs w r e i m))"
  by (induction m arbitrary: T) (auto simp: Let_def closes_opened_append rst_examples_closes)

lemma generate_rst_files_closes:
  "closes_opened {} (generate_rst_files w rst_dir examples_dir images_dir)"
  by (simp add: generate_rst_files_def Let_def closes_opened_append rst_dirs_closes)

lemma opened_OpenFile: "OpenFile p \<in> set es \<Longrightarrow> p \<in> set (opened es)"
  by (induction es rule: opened.induct) auto

lemma opened_WriteFile: "WriteFile p text \<in> set es \<Longrightarrow> p \<in> set (opened es)"
  by (induction es rule: opened.induct) auto

lemma rst_dirs_opens:
  "(d, fns) \<in> set m \<Longrightarrow> OpenFile (join (join r d) ''index.rst'') \<in> set (fst (rst_dirs w r e i m))"
  by (induction m) (auto simp: Let_def)

lemma kept_index_opened:
  assumes "f \<in> set (kept (locate_files w examples_dir))"
  shows "OpenFile (join (join rst_dir (group_key examples_dir f)) ''index.rst'')
         \<in> set (generate_rst_files w rst_dir examples_dir images_dir)"
proof -
  from assms have "group_key examples_dir f
      \<in> group_key examples_dir ` set (kept (locate_files w examples_dir))"
    by simp
  then have "(group_key examples_dir f,
        map (\<lambda>f. (f, page_name f))
          (members examples_dir (locate_files w examples_dir) (group_key examples_dir f)))
      \<in> set (ordered_iteritems (group_examples examples_dir (locate_files w examples_dir) []))"
    by (simp only: ordered_iteritems_set group_examples_member)
  from rst_dirs_opens [OF this, of rst_dir w examples_dir images_dir]
  show ?thesis by (simp add: generate_rst_files_def Let_def)
qed

text \<open>
  C6. With the same located examples, a second run of \<open>generate_rst_files\<close> leaves the
  pages on disk as the first run left them. The run opens the main index page, the index
  page of the group of every example that is not left out and the content page of every
  such example. Every page it opens exists afterwards with a content that does not depend
  on what was on disk before the run, because the run opens for writing whatever it closes;
  the pages it does not open stay as they were.
\<close>

theorem rst_files_idempotent:
  "apply_events (generate_rst_files w rst_dir examples_dir images_dir)
     (apply_events (generate_rst_files w rst_dir examples_dir images_dir) fs)
   = apply_events (generate_rst_files w rst_dir examples_dir images_dir) fs
   \<and> join rst_dir ''index.rst''
     \<in> set (opened (generate_rst_files w rst_dir examples_dir images_dir))
   \<and> (\<forall>f \<in> set (kept (locate_files w examples_dir)).
        join (join rst_dir (group_key examples_dir f)) ''index.rst''
          \<in> set (opened (generate_rst_files w rst_dir examples_dir images_dir))
        \<and> join (join rst_dir (group_key examples_dir f)) (page_name f)
          \<in> set (opened (generate_rst_files w rst_dir examples_dir images_dir)))
   \<and> (\<forall>p \<in> set (opened (generate_rst_files w rst_dir examples_dir images_dir)).
        apply_events (generate_rst_files w rst_dir examples_dir images_dir) fs p \<noteq> None
        \<and> apply_events (generate_rst_files w rst_dir examples_dir images_dir) fs p
          = apply_events (generate_rst_files w rst_dir examples_dir images_dir) fs' p)
   \<and> (\<forall>p. p \<notin> set (opened (generate_rst_files w rst_dir examples_dir images_dir)) \<longrightarrow>
        apply_events (generate_rst_files w rst_dir examples_dir images_dir) fs p = fs p)"
proof (intro conjI ballI allI impI)
  show "apply_events (generate_rst_files w rst_dir examples_dir images_dir)
     (apply_events (generate_rst_files w rst_dir examples_dir images_dir) fs)
   = apply_events (generate_rst_files w rst_dir examples_dir images_dir) fs"
    by (rule apply_events_twice) (rule generate_rst_files_closes)
  show "join rst_dir ''index.rst''
     \<in> set (opened (generate_rst_files w rst_dir examples_dir images_dir))"
    by (rule opened_OpenFile) (simp add: generate_rst_files_def Let_def)
next
  fix f assume f: "f \<in> set (kept (locate_files w examples_dir))"
  then show "join (join rst_dir (group_key examples_dir f)) ''index.rst''
          \<in> set (opened (generate_rst_files w rst_dir examples_dir images_dir))"
    by (intro opened_OpenFile kept_index_opened)
  from kept_page_written [OF f, of rst_dir images_dir]
  show "join (join rst_dir (group_key examples_dir f)) (page_name f)
          \<in> set (opened (generate_rst_files w rst_dir examples_dir images_dir))"
    by (rule opened_WriteFile)
next
  fix p assume p: "p \<in> set (opened (generate_rst_files w rst_dir examples_dir images_dir))"
  then show "apply_events (generate_rst_files w rst_dir examples_dir images_dir) fs p \<noteq> None"
    by (rule apply_events_opened)
  from generate_rst_files_closes p
  show "apply_events (generate_rst_files w rst_dir examples_dir images_dir) fs p
          = apply_events (generate_rst_files w rst_dir examples_dir images_dir) fs' p"
    by (intro apply_events_agree [of "{}"]) auto
next
  fix p assume "p \<notin> set (opened (generate_rst_files w rst_dir examples_dir images_dir))"
  with generate_rst_files_closes
  show "apply_events (generate_rst_files w rst_dir examples_dir images_dir) fs p = fs p"
    by (intro apply_events_untouched [of "{}"]) auto
qed

text \<open>
  In the small world: the main index page after a run over a stale one, the two other
  pages the run opens, and a stale page of an earlier run that the run leaves alone.
\<close>

theorem rst_files_idempotent_witness:
  "apply_events (generate_rst_files (demo_world [''/s/examples/a/ex1.py''])
       ''/s/gallery/examples'' ''/s/examples'' ''/s/gallery/images'')
     (Map.empty(''/s/gallery/examples/index.rst'' \<mapsto> ''stale'')) ''/s/gallery/examples/index.rst''
   = Some (index_text ''sfepy'' ''SfePy autogenerated gallery'' (replicate 27 CHR ''='')
           @ ''    a/index'' @ [newline])
   \<and> ''/s/gallery/examples/a/index.rst''
     \<in> set (opened (generate_rst_files (demo_world [''/s/examples/a/ex1.py''])
                       ''/s/gallery/examples'' ''/s/examples'' ''/s/gallery/images''))
   \<and> ''/s/gallery/examples/a/ex1.rst''
     \<in> set (opened (generate_rst_files (demo_world [''/s/examples/a/ex1.py''])
                       ''/s/gallery/examples'' ''/s/examples'' ''/s/gallery/images''))
   \<and> apply_events (generate_rst_files (demo_world [''/s/examples/a/ex1.py''])
       ''/s/gallery/examples'' ''/s/examples'' ''/s/gallery/images'')
     (Map.empty(''/s/gallery/examples/old.rst'' \<mapsto> ''stale'')) ''/s/gallery/examples/old.rst''
     = Some ''stale''"
proof -
  let ?G = "generate_rst_files (demo_world [''/s/examples/a/ex1.py''])
       ''/s/gallery/examples'' ''/s/examples'' ''/s/gallery/images''"
  let ?stale = "Map.empty(''/s/gallery/examples/index.rst'' \<mapsto> ''stale'')"
  let ?other = "Map.empty(''/s/gallery/examples/old.rst'' \<mapsto> ''stale'')"
  have events: "?G = [EnsurePath ''/s/gallery/examples/'',
           Output ''generating rst files...'',
           OpenFile ''/s/gallery/examples/index.rst'',
           EnsurePath ''/s/gallery/examples/a/'',
           OpenFile ''/s/gallery/examples/a/index.rst'',
           Output (quoted ''a/ex1.rst''),
           WriteFile ''/s/gallery/examples/a/ex1.rst''
             (include_text ''a-ex1'' ''a/ex1.py'' ''========'' ''/../gallery/images/a-ex1.png''
                ''../../../examples/a/ex1.py'' ''/../examples/a/ex1.py''),
           CloseFile ''/s/gallery/examples/a/index.rst''
             (index_text ''a'' ''a'' ''='' @ ''    ex1'' @ [newline]),
           CloseFile ''/s/gallery/examples/index.rst''
             (index_text ''sfepy'' ''SfePy autogenerated gallery'' (replicate 27 CHR ''='')
              @ ''    a/index'' @ [newline]),
           Output ''...done'']"
    by code_simp
  have main_opened: "''/s/gallery/examples/index.rst'' \<in> set (opened ?G)"
    and other_not: "''/s/gallery/examples/old.rst'' \<notin> set (opened ?G)"
    by (simp_all add: events)
  have member: "''/s/examples/a/ex1.py''
      \<in> set (kept (locate_files (demo_world [''/s/examples/a/ex1.py'']) ''/s/examples''))"
    and index_path: "join (join ''/s/gallery/examples''
        (group_key ''/s/examples'' ''/s/examples/a/ex1.py'')) ''index.rst''
      = ''/s/gallery/examples/a/index.rst''"
    and page_path: "join (join ''/s/gallery/examples''
        (group_key ''/s/examples'' ''/s/examples/a/ex1.py'')) (page_name ''/s/examples/a/ex1.py'')
      = ''/s/gallery/examples/a/ex1.rst''"
    by code_simp+
  have fresh: "apply_events ?G Map.empty ''/s/gallery/examples/index.rst''
      = Some (index_text ''sfepy'' ''SfePy autogenerated gallery'' (replicate 27 CHR ''='')
              @ ''    a/index'' @ [newline])"
    by (simp add: events apply_events_def flushed_def)
  note inst = rst_files_idempotent [of "demo_world [''/s/examples/a/ex1.py'']"
      "''/s/gallery/examples''" "''/s/examples''" "''/s/gallery/images''"]
  from inst [of ?stale Map.empty] main_opened
  have "apply_events ?G ?stale ''/s/gallery/examples/index.rst''
      = apply_events ?G Map.empty ''/s/gallery/examples/index.rst''"
    by blast
  with fresh have a: "apply_events ?G ?stale ''/s/gallery/examples/index.rst''
      = Some (index_text ''sfepy'' ''SfePy autogenerated gallery'' (replicate 27 CHR ''='')
              @ ''    a/index'' @ [newline])"
    by simp
  from inst [of ?stale Map.empty] member
  have "join (join ''/s/gallery/examples''
        (group_key ''/s/examples'' ''/s/examples/a/ex1.py'')) ''index.rst'' \<in> set (opened ?G)
      \<and> join (join ''/s/gallery/examples''
        (group_key ''/s/examples'' ''/s/examples/a/ex1.py'')) (page_name ''/s/examples/a/ex1.py'')
        \<in> set (opened ?G)"
    by blast
  then have b: "''/s/gallery/examples/a/index.rst'' \<in> set (opened ?G)
      \<and> ''/s/gallery/examples/a/ex1.rst'' \<in> set (opened ?G)"
    by (simp only: index_path page_path)
  from inst [of ?other Map.empty] other_not
  have "apply_events ?G ?other ''/s/gallery/examples/old.rst''
      = ?other ''/s/gallery/examples/old.rst''"
    by blast
  then have c: "apply_events ?G ?other ''/s/gallery/examples/old.rst'' = Some ''stale''"
    by simp
  from a b c show ?thesis by blast
qed

section \<open>The index pages on disk\<close>













text \<open>
  It fails also for an example directly under the examples directory: its group has the
  empty name, the index page of the group has the path of the main index page, and the
  main index page, which lists \<open>/index\<close>, is what the file holds in the end.
\<close>

theorem top_level_index_overwritten:
  "join (join ''/s/gallery/examples'' (group_key ''/s/examples'' ''/s/examples/t.py'')) ''index.rst''
   = join ''/s/gallery/examples'' ''index.rst''
   \<and> CloseFile ''/s/gallery/examples/index.rst''
       (index_text [] [] [] @ ''    t'' @ [newline])
     \<in> set (generate_rst_files (demo_world [''/s/examples/t.py''])
               ''/s/gallery/examples'' ''/s/examples'' ''/s/gallery/images'')
   \<and> apply_events
       (generate_rst_files (demo_world [''/s/examples/t.py''])
          ''/s/gallery/examples'' ''/s/examples'' ''/s/gallery/images'')
       Map.empty ''/s/gallery/examples/index.rst''
     = Some (index_text ''sfepy'' ''SfePy autogenerated gallery'' (replicate 27 CHR ''='')
             @ ''    /index'' @ [newline])"
  by code_simp

section \<open>Properties of the exclusion list\<close>

lemma kept_skip: "basename f \<in> set omits \<Longrightarrow> kept (pre @ f # post) = kept (pre @ post)"
  by (simp add: kept_def)

lemma images_loop_located:
  "images_loop (w\<lparr>locate_files := g\<rparr>) idir edir odir trunk opts view fs
   = images_loop w idir edir odir trunk opts view fs"
  by (induction fs arbitrary: view) (simp_all add: Let_def split: solve_result.splits)

lemma rst_examples_located:
  "rst_examples (w\<lparr>locate_files := g\<rparr>) r e i full fns = rst_examples w r e i full fns"
  by (induction fns) (auto simp: Let_def)

lemma rst_dirs_located:
  "rst_dirs (w\<lparr>locate_files := g\<rparr>) r e i m = rst_dirs w r e i m"
  by (induction m) (auto simp: Let_def rst_examples_located)

lemma generate_images_same_kept:
  assumes "kept (locate_files w examples_dir) = kept (locate_files w' examples_dir)"
    and "w' = w\<lparr>locate_files := g\<rparr>"
  shows "generate_images w images_dir examples_dir = generate_images w' images_dir examples_dir"
proof -
  have "images_loop w images_dir examples_dir (mkdtemp w) (join (mkdtemp w) ''result'')
          (image_options (join (mkdtemp w) ''result'')) (image_viewer (mkdtemp w))
          (locate_files w examples_dir)
        = images_loop w images_dir examples_dir (mkdtemp w) (join (mkdtemp w) ''result'')
          (image_options (join (mkdtemp w) ''result'')) (image_viewer (mkdtemp w))
          (locate_files w' examples_dir)"
    using assms(1) images_loop_kept by metis
  then show ?thesis
    by (simp add: generate_images_def Let_def assms(2) images_loop_located)
qed

lemma generate_rst_files_same_kept:
  assumes "kept (locate_files w examples_dir) = kept (locate_files w' examples_dir)"
    and "w' = w\<lparr>locate_files := g\<rparr>"
  shows "generate_rst_files w rst_dir examples_dir images_dir
         = generate_rst_files w' rst_dir examples_dir images_dir"
proof -
  have "group_examples examples_dir (locate_files w examples_dir) []
        = group_examples examples_dir (locate_files w' examples_dir) []"
    using assms(1) group_examples_kept by metis
  then show ?thesis
    by (simp add: generate_rst_files_def Let_def assms(2) rst_dirs_located)
qed

text \<open>
  C10. Both generators test the base name of a located file against \<open>omits\<close>. The
  listed name is recognised under every directory \<open>d\<close>, and a located file whose base
  name is listed changes nothing: both generators do what they do when the file is not
  there at all.
\<close>

theorem omitted_by_basename:
  "basename (join d ''linear_elastic_mM.py'') \<in> set omits
   \<and> (basename f \<in> set omits \<and> locate_files w examples_dir = pre @ f # post \<longrightarrow>
        generate_images w images_dir examples_dir
        = generate_images (w\<lparr>locate_files := \<lambda>d. pre @ post\<rparr>) images_dir examples_dir
        \<and> generate_rst_files w rst_dir examples_dir images_dir
          = generate_rst_files (w\<lparr>locate_files := \<lambda>d. pre @ post\<rparr>) rst_dir examples_dir
              images_dir)"
proof (intro conjI impI)
  have "sep \<notin> set ''linear_elastic_mM.py''" by (simp add: sep_def)
  then have "basename (join d ''linear_elastic_mM.py'') = ''linear_elastic_mM.py''"
    by (rule basename_join)
  then show "basename (join d ''linear_elastic_mM.py'') \<in> set omits"
    by (simp add: omits_def)
next
  assume h: "basename f \<in> set omits \<and> locate_files w examples_dir = pre @ f # post"
  then have same: "kept (locate_files w examples_dir)
      = kept (locate_files (w\<lparr>locate_files := \<lambda>d. pre @ post\<rparr>) examples_dir)"
    by (simp add: kept_skip)
  from same show "generate_images w images_dir examples_dir
        = generate_images (w\<lparr>locate_files := \<lambda>d. pre @ post\<rparr>) images_dir examples_dir"
    by (rule generate_images_same_kept) simp
  from same show "generate_rst_files w rst_dir examples_dir images_dir
          = generate_rst_files (w\<lparr>locate_files := \<lambda>d. pre @ post\<rparr>) rst_dir examples_dir
              images_dir"
    by (rule generate_rst_files_same_kept) simp
qed

text \<open>
  The listed example under \<open>b\<close> is left out in the small world, with the same name
  also present under \<open>a\<close>.
\<close>

theorem omitted_by_basename_witness:
  "generate_images
     (demo_world [''/s/examples/a/ex1.py'', ''/s/examples/b/linear_elastic_mM.py'',
                  ''/s/examples/a/linear_elastic_mM.py''])
     ''/s/gallery/images'' ''/s/examples''
   = generate_images
       ((demo_world [''/s/examples/a/ex1.py'', ''/s/examples/b/linear_elastic_mM.py'',
                     ''/s/examples/a/linear_elastic_mM.py''])
        \<lparr>locate_files := \<lambda>d. [''/s/examples/a/ex1.py''] @ [''/s/examples/a/linear_elastic_mM.py'']\<rparr>)
       ''/s/gallery/images'' ''/s/examples''
   \<and> generate_rst_files
       (demo_world [''/s/examples/a/ex1.py'', ''/s/examples/b/linear_elastic_mM.py'',
                    ''/s/examples/a/linear_elastic_mM.py''])
       ''/s/gallery/examples'' ''/s/examples'' ''/s/gallery/images''
     = generate_rst_files
       ((demo_world [''/s/examples/a/ex1.py'', ''/s/examples/b/linear_elastic_mM.py'',
                     ''/s/examples/a/linear_elastic_mM.py''])
        \<lparr>locate_files := \<lambda>d. [''/s/examples/a/ex1.py''] @ [''/s/examples/a/linear_elastic_mM.py'']\<rparr>)
       ''/s/gallery/examples'' ''/s/examples'' ''/s/gallery/images''"
proof -
  have listed: "basename ''/s/examples/b/linear_elastic_mM.py'' \<in> set omits"
    by code_simp
  have located: "locate_files
      (demo_world [''/s/examples/a/ex1.py'', ''/s/examples/b/linear_elastic_mM.py'',
                   ''/s/examples/a/linear_elastic_mM.py'']) ''/s/examples''
    = [''/s/examples/a/ex1.py''] @ ''/s/examples/b/linear_elastic_mM.py''
        # [''/s/examples/a/linear_elastic_mM.py'']"
    by (simp add: demo_world_def)
  from omitted_by_basename [of "''/s/examples/b''" "''/s/examples/b/linear_elastic_mM.py''"
      "demo_world [''/s/examples/a/ex1.py'', ''/s/examples/b/linear_elastic_mM.py'',
                   ''/s/examples/a/linear_elastic_mM.py'']"
      "''/s/examples''" "[''/s/examples/a/ex1.py'']" "[''/s/examples/a/linear_elastic_mM.py'']"
      "''/s/gallery/images''" "''/s/gallery/examples''"]
    listed located
  show ?thesis by blast
qed

section \<open>The image path in both generators\<close>


lemma replace_scan_absent: "\<not> occurs_in old s \<Longrightarrow> replace_scan old new s = s"
  by (induction s) auto

lemma occurs_in_empty: "occurs_in [] s"
  by (cases s) (simp_all add: startswith_def)

lemma replace_absent: "\<not> occurs_in old s \<Longrightarrow> replace s old new = s"
  using occurs_in_empty [of s] by (auto simp: replace_def replace_scan_absent)



section \<open>Properties of the driver\<close>

lemma generate_rst_files_no_stage_call:
  "filter stage_call (generate_rst_files w rst_dir examples_dir images_dir) = []"
  by (simp add: generate_rst_files_def Let_def rst_dirs_no_stage_call)

text \<open>
  C8. The driver takes the images directory from the option when it is given and as
  \<open>images\<close> joined under the documentation root otherwise, the thumbnails directory as
  \<open>thumbnails\<close> joined under the images directory and the pages directory as
  \<open>examples\<close> joined under the documentation root. With \<open>--no-images\<close> it runs
  \<open>generate_rst_files\<close> only, and neither the solver nor the renderer nor the thumbnailer
  is called. Without it, when \<open>generate_images\<close> returns, the events are those of
  \<open>generate_images\<close>, then those of \<open>generate_thumbnails\<close>, then those of
  \<open>generate_rst_files\<close>, which comes last. An interrupt that \<open>generate_images\<close> raises
  again ends the driver there.
\<close>

theorem driver_stages:
  assumes "examples_dir = realpath w (opt_examples_dir opts)"
    and "gallery_dir = dirname (realpath w (opt_output_filename opts))"
    and "images_dir = (case opt_images_dir opts of None \<Rightarrow> join gallery_dir ''images''
                       | Some d \<Rightarrow> d)"
    and "thumbnails_dir = join images_dir ''thumbnails''"
    and "rst_dir = join gallery_dir ''examples''"
  shows "(opt_no_images opts \<longrightarrow>
            main w opts = (generate_rst_files w rst_dir examples_dir images_dir, None)
            \<and> filter stage_call (fst (main w opts)) = [])
         \<and> (\<not> opt_no_images opts \<and> snd (generate_images w images_dir examples_dir) = None \<longrightarrow>
            main w opts
            = (fst (generate_images w images_dir examples_dir)
               @ generate_thumbnails w thumbnails_dir images_dir
               @ generate_rst_files w rst_dir examples_dir images_dir, None))
         \<and> (\<not> opt_no_images opts \<and> snd (generate_images w images_dir examples_dir) = Some e \<longrightarrow>
            main w opts = (fst (generate_images w images_dir examples_dir), Some e))"
proof -
  have images: "get_default (opt_images_dir opts) (join gallery_dir ''images'') = images_dir"
    using assms(3) by (cases "opt_images_dir opts") (simp_all add: get_default_def)
  have unfolded: "main w opts
      = (if \<not> opt_no_images opts then
           (case generate_images w images_dir examples_dir of
              (events, Some e) \<Rightarrow> (events, Some e)
            | (events, None) \<Rightarrow>
                (events @ generate_thumbnails w thumbnails_dir images_dir
                 @ generate_rst_files w rst_dir examples_dir images_dir, None))
         else (generate_rst_files w rst_dir examples_dir images_dir, None))"
    unfolding main_def Let_def
    unfolding assms(1,2) [symmetric]
    unfolding images
    unfolding assms(4,5) [symmetric]
    by (rule refl)
  show ?thesis
  proof (intro conjI impI)
    assume "opt_no_images opts"
    then show "main w opts = (generate_rst_files w rst_dir examples_dir images_dir, None)"
      by (simp add: unfolded)
    then show "filter stage_call (fst (main w opts)) = []"
      by (simp add: generate_rst_files_no_stage_call)
  next
    assume "\<not> opt_no_images opts \<and> snd (generate_images w images_dir examples_dir) = None"
    then show "main w opts
            = (fst (generate_images w images_dir examples_dir)
               @ generate_thumbnails w thumbnails_dir images_dir
               @ generate_rst_files w rst_dir examples_dir images_dir, None)"
      by (cases "generate_images w images_dir examples_dir") (simp add: unfolded)
  next
    assume "\<not> opt_no_images opts \<and> snd (generate_images w images_dir examples_dir) = Some e"
    then show "main w opts = (fst (generate_images w images_dir examples_dir), Some e)"
      by (cases "generate_images w images_dir examples_dir") (simp add: unfolded)
  qed
qed

text \<open>
  Three whole runs of the driver in the small world, with the default options:
  with \<open>--no-images\<close>, without it, and without it when the solver is interrupted.
\<close>

theorem driver_stages_witness:
  "main (demo_world [''/s/examples/a/ex1.py'']) (default_options\<lparr>opt_no_images := True\<rparr>)
   = ([EnsurePath ''/s/gallery/examples/'',
       Output ''generating rst files...'',
       OpenFile ''/s/gallery/examples/index.rst'',
       EnsurePath ''/s/gallery/examples/a/'',
       OpenFile ''/s/gallery/examples/a/index.rst'',
       Output (quoted ''a/ex1.rst''),
       WriteFile ''/s/gallery/examples/a/ex1.rst''
         (include_text ''a-ex1'' ''a/ex1.py'' ''========'' ''/../gallery/images/a-ex1.png''
            ''../../../examples/a/ex1.py'' ''/../examples/a/ex1.py''),
       CloseFile ''/s/gallery/examples/a/index.rst''
         (index_text ''a'' ''a'' ''='' @ ''    ex1'' @ [newline]),
       CloseFile ''/s/gallery/examples/index.rst''
         (index_text ''sfepy'' ''SfePy autogenerated gallery'' (replicate 27 CHR ''='')
          @ ''    a/index'' @ [newline]),
       Output ''...done''],
      None)
   \<and> main (demo_world [''/s/examples/a/ex1.py'']) default_options
     = ([EnsurePath ''/s/gallery/images/'',
         Output (''trying '' @ quoted ''a/ex1.py'' @ ''...''),
         Solve ''/s/examples/a/ex1.py'' demo_options,
         Output (''displaying results from '' @ quoted ''/tmp/t/result.vtk''),
         Output (''to '' @ quoted ''gallery/images/a-ex1.png'' @ ''...''),
         Render (demo_view\<lparr>view_filename := ''/tmp/t/result.vtk''\<rparr>) False True
           ''/s/gallery/images/a-ex1.png'',
         Clf, Output ''...done'', RemoveFiles ''/tmp/t'', Output ''...done'']
        @ [EnsurePath ''/s/gallery/images/thumbnails/'',
           Output ''generating thumbnails...'',
           Output (quoted ''gallery/images/a-ex1.png''),
           Thumbnail ''/s/gallery/images/a-ex1.png'' ''/s/gallery/images/thumbnails/a-ex1.png'',
           Output ''...done'']
        @ [EnsurePath ''/s/gallery/examples/'',
           Output ''generating rst files...'',
           OpenFile ''/s/gallery/examples/index.rst'',
           EnsurePath ''/s/gallery/examples/a/'',
           OpenFile ''/s/gallery/examples/a/index.rst'',
           Output (quoted ''a/ex1.rst''),
           WriteFile ''/s/gallery/examples/a/ex1.rst''
             (include_text ''a-ex1'' ''a/ex1.py'' ''========'' ''/../gallery/images/a-ex1.png''
                ''../../../examples/a/ex1.py'' ''/../examples/a/ex1.py''),
           CloseFile ''/s/gallery/examples/a/index.rst''
             (index_text ''a'' ''a'' ''='' @ ''    ex1'' @ [newline]),
           CloseFile ''/s/gallery/examples/index.rst''
             (index_text ''sfepy'' ''SfePy autogenerated gallery'' (replicate 27 CHR ''='')
              @ ''    a/index'' @ [newline]),
           Output ''...done''],
        None)
   \<and> main (demo_world [''/s/examples/b/ex4.py'', ''/s/examples/a/ex1.py'']) default_options
     = ([EnsurePath ''/s/gallery/images/'',
         Output (''trying '' @ quoted ''b/ex4.py'' @ ''...''),
         Solve ''/s/examples/b/ex4.py'' demo_options],
        Some KeyboardInterrupt)"
proof -
  let ?w = "demo_world [''/s/examples/a/ex1.py'']"
  let ?v = "demo_world [''/s/examples/b/ex4.py'', ''/s/examples/a/ex1.py'']"
  let ?n = "default_options\<lparr>opt_no_images := True\<rparr>"
  let ?images = "[EnsurePath ''/s/gallery/images/'',
         Output (''trying '' @ quoted ''a/ex1.py'' @ ''...''),
         Solve ''/s/examples/a/ex1.py'' demo_options,
         Output (''displaying results from '' @ quoted ''/tmp/t/result.vtk''),
         Output (''to '' @ quoted ''gallery/images/a-ex1.png'' @ ''...''),
         Render (demo_view\<lparr>view_filename := ''/tmp/t/result.vtk''\<rparr>) False True
           ''/s/gallery/images/a-ex1.png'',
         Clf, Output ''...done'', RemoveFiles ''/tmp/t'', Output ''...done'']"
  let ?thumbnails = "[EnsurePath ''/s/gallery/images/thumbnails/'',
           Output ''generating thumbnails...'',
           Output (quoted ''gallery/images/a-ex1.png''),
           Thumbnail ''/s/gallery/images/a-ex1.png'' ''/s/gallery/images/thumbnails/a-ex1.png'',
           Output ''...done'']"
  let ?pages = "[EnsurePath ''/s/gallery/examples/'',
           Output ''generating rst files...'',
           OpenFile ''/s/gallery/examples/index.rst'',
           EnsurePath ''/s/gallery/examples/a/'',
           OpenFile ''/s/gallery/examples/a/index.rst'',
           Output (quoted ''a/ex1.rst''),
           WriteFile ''/s/gallery/examples/a/ex1.rst''
             (include_text ''a-ex1'' ''a/ex1.py'' ''========'' ''/../gallery/images/a-ex1.png''
                ''../../../examples/a/ex1.py'' ''/../examples/a/ex1.py''),
           CloseFile ''/s/gallery/examples/a/index.rst''
             (index_text ''a'' ''a'' ''='' @ ''    ex1'' @ [newline]),
           CloseFile ''/s/gallery/examples/index.rst''
             (index_text ''sfepy'' ''SfePy autogenerated gallery'' (replicate 27 CHR ''='')
              @ ''    a/index'' @ [newline]),
           Output ''...done'']"
  have n1: "''/s/examples'' = realpath ?w (opt_examples_dir ?n)"
    and n2: "''/s/gallery'' = dirname (realpath ?w (opt_output_filename ?n))"
    and n3: "''/s/gallery/images''
      = (case opt_images_dir ?n of None \<Rightarrow> join ''/s/gallery'' ''images'' | Some d \<Rightarrow> d)"
    and d1: "''/s/examples'' = realpath ?w (opt_examples_dir default_options)"
    and d2: "''/s/gallery'' = dirname (realpath ?w (opt_output_filename default_options))"
    and d3: "''/s/gallery/images''
      = (case opt_images_dir default_options of None \<Rightarrow> join ''/s/gallery'' ''images''
         | Some d \<Rightarrow> d)"
    and t: "''/s/gallery/images/thumbnails'' = join ''/s/gallery/images'' ''thumbnails''"
    and r: "''/s/gallery/examples'' = join ''/s/gallery'' ''examples''"
    by code_simp+
  have flag: "opt_no_images ?n" "\<not> opt_no_images default_options"
    by (simp_all add: default_options_def)
  have images: "generate_images ?w ''/s/gallery/images'' ''/s/examples'' = (?images, None)"
    by code_simp
  have thumbnails: "generate_thumbnails ?w ''/s/gallery/images/thumbnails'' ''/s/gallery/images''
      = ?thumbnails"
    by code_simp
  have pages: "generate_rst_files ?w ''/s/gallery/examples'' ''/s/examples'' ''/s/gallery/images''
      = ?pages"
    by code_simp
  from driver_stages [OF n1 n2 n3 t r, of KeyboardInterrupt] flag(1)
  have "main ?w ?n
      = (generate_rst_files ?w ''/s/gallery/examples'' ''/s/examples'' ''/s/gallery/images'', None)"
    by blast
  then have a: "main ?w ?n = (?pages, None)"
    by (simp only: pages)
  have "snd (generate_images ?w ''/s/gallery/images'' ''/s/examples'') = None"
    by (simp only: images snd_conv)
  with driver_stages [OF d1 d2 d3 t r, of KeyboardInterrupt] flag(2)
  have "main ?w default_options
     = (fst (generate_images ?w ''/s/gallery/images'' ''/s/examples'')
        @ generate_thumbnails ?w ''/s/gallery/images/thumbnails'' ''/s/gallery/images''
        @ generate_rst_files ?w ''/s/gallery/examples'' ''/s/examples'' ''/s/gallery/images'', None)"
    by blast
  then have b: "main ?w default_options = (?images @ ?thumbnails @ ?pages, None)"
    by (simp only: images thumbnails pages fst_conv)
  have i1: "''/s/examples'' = realpath ?v (opt_examples_dir default_options)"
    and i2: "''/s/gallery'' = dirname (realpath ?v (opt_output_filename default_options))"
    by code_simp+
  have interrupted: "generate_images ?v ''/s/gallery/images'' ''/s/examples''
      = ([EnsurePath ''/s/gallery/images/'',
          Output (''trying '' @ quoted ''b/ex4.py'' @ ''...''),
          Solve ''/s/examples/b/ex4.py'' demo_options],
         Some KeyboardInterrupt)"
    by code_simp
  then have "snd (generate_images ?v ''/s/gallery/images'' ''/s/examples'')
      = Some KeyboardInterrupt"
    by (simp only: snd_conv)
  with driver_stages [OF i1 i2 d3 t r, of KeyboardInterrupt] flag(2)
  have "main ?v default_options
      = (fst (generate_images ?v ''/s/gallery/images'' ''/s/examples''), Some KeyboardInterrupt)"
    by blast
  then have c: "main ?v default_options
      = ([EnsurePath ''/s/gallery/images/'',
          Output (''trying '' @ quoted ''b/ex4.py'' @ ''...''),
          Solve ''/s/examples/b/ex4.py'' demo_options],
         Some KeyboardInterrupt)"
    by (simp only: interrupted fst_conv)
  from a b c show ?thesis by (intro conjI)
qed

section \<open>The relative name of an example\<close>

text \<open>
  For a file located under the examples directory, \<open>get_ebase\<close> is the path of the file
  relative to that directory, as long as the name of the directory does not occur a
  second time in the path.
\<close>

lemma startswith_append: "startswith (d @ t) d"
  by (simp add: startswith_def)

lemma replace_scan_prefix:
  assumes "d \<noteq> []" shows "replace_scan d new (d @ t) = new @ replace_scan d new t"
proof -
  from assms obtain c cs where "d @ t = c # cs" by (cases d) auto
  then have "replace_scan d new (d @ t)
      = (if d \<noteq> [] \<and> startswith (d @ t) d
         then new @ replace_scan d new (drop (length d) (d @ t))
         else c # replace_scan d new cs)"
    by simp
  with assms show ?thesis by (simp add: startswith_append)
qed

lemma get_ebase_relative:
  assumes "examples_dir \<noteq> []" and "\<not> occurs_in examples_dir (sep # rel)"
  shows "get_ebase examples_dir (examples_dir @ sep # rel) = rel"
proof -
  have "replace (examples_dir @ sep # rel) examples_dir [] = sep # rel"
    using assms by (simp add: replace_def replace_scan_prefix replace_scan_absent)
  then show ?thesis by (simp add: get_ebase_def)
qed

section \<open>Failures of the solver\<close>

lemma generate_images_loop:
  "generate_images w images_dir examples_dir
   = (EnsurePath (images_dir @ [sep])
        # fst (images_loop w images_dir examples_dir (mkdtemp w) (join (mkdtemp w) ''result'')
                 (image_options (join (mkdtemp w) ''result'')) (image_viewer (mkdtemp w))
                 (locate_files w examples_dir)),
      snd (images_loop w images_dir examples_dir (mkdtemp w) (join (mkdtemp w) ''result'')
             (image_options (join (mkdtemp w) ''result'')) (image_viewer (mkdtemp w))
             (locate_files w examples_dir)))"
  by (simp add: generate_images_def Let_def then_run_def)

text \<open>
  C2. Let \<open>generate_images\<close> locate the examples \<open>pre\<close>, then \<open>f\<close>, then \<open>post\<close>,
  with \<open>f\<close> not left out and no exception over \<open>pre\<close>. If the solver raises anything
  but \<open>KeyboardInterrupt\<close> on \<open>f\<close>, the events of the run are those over \<open>pre\<close>, then
  for \<open>f\<close> the solve, the failure notice and the closing message, with no call of the
  renderer, and then those of the loop over \<open>post\<close>; the run ends as the run over
  \<open>post\<close> ends. If the solver raises \<open>KeyboardInterrupt\<close> on \<open>f\<close>, the run ends at the
  solve with that exception, whatever \<open>post\<close> is.
\<close>

theorem solve_failure_isolated:
  assumes "locate_files w examples_dir = pre @ f # post"
    and "basename f \<notin> set omits"
    and "snd (generate_images (w\<lparr>locate_files := \<lambda>d. pre\<rparr>) images_dir examples_dir) = None"
  shows "(pde_solve w f (image_options (join (mkdtemp w) ''result'')) = Failed \<longrightarrow>
            fst (generate_images w images_dir examples_dir)
            = fst (generate_images (w\<lparr>locate_files := \<lambda>d. pre\<rparr>) images_dir examples_dir)
              @ [Output (''trying '' @ quoted (get_ebase examples_dir f) @ ''...''),
                 Solve f (image_options (join (mkdtemp w) ''result'')),
                 Output ''***** failed! *****'',
                 Output ''...done'']
              @ tl (fst (generate_images (w\<lparr>locate_files := \<lambda>d. post\<rparr>)
                           images_dir examples_dir))
            \<and> snd (generate_images w images_dir examples_dir)
              = snd (generate_images (w\<lparr>locate_files := \<lambda>d. post\<rparr>) images_dir examples_dir))
         \<and> (pde_solve w f (image_options (join (mkdtemp w) ''result'')) = Interrupted \<longrightarrow>
            generate_images w images_dir examples_dir
            = (fst (generate_images (w\<lparr>locate_files := \<lambda>d. pre\<rparr>) images_dir examples_dir)
               @ [Output (''trying '' @ quoted (get_ebase examples_dir f) @ ''...''),
                  Solve f (image_options (join (mkdtemp w) ''result''))],
               Some KeyboardInterrupt))"
  using assms(2,3)
  by (simp add: generate_images_loop images_loop_located assms(1)
        images_loop_append [of _ _ _ _ _ _ _ pre] Let_def then_run_def)

text \<open>
  Two whole runs of \<open>generate_images\<close> in the small world: a failure on the second of three
  examples, and an interrupt on the second of three.
\<close>

theorem solve_failure_isolated_witness:
  "generate_images
     (demo_world [''/s/examples/a/ex1.py'', ''/s/examples/a/ex2.py'', ''/s/examples/b/ex3.py''])
     ''/s/gallery/images'' ''/s/examples''
   = ([EnsurePath ''/s/gallery/images/'',
       Output (''trying '' @ quoted ''a/ex1.py'' @ ''...''),
       Solve ''/s/examples/a/ex1.py'' demo_options,
       Output (''displaying results from '' @ quoted ''/tmp/t/result.vtk''),
       Output (''to '' @ quoted ''gallery/images/a-ex1.png'' @ ''...''),
       Render (demo_view\<lparr>view_filename := ''/tmp/t/result.vtk''\<rparr>) False True
         ''/s/gallery/images/a-ex1.png'',
       Clf, Output ''...done'', RemoveFiles ''/tmp/t'', Output ''...done'',
       Output (''trying '' @ quoted ''a/ex2.py'' @ ''...''),
       Solve ''/s/examples/a/ex2.py'' demo_options,
       Output ''***** failed! *****'',
       Output ''...done'',
       Output (''trying '' @ quoted ''b/ex3.py'' @ ''...''),
       Solve ''/s/examples/b/ex3.py'' demo_options,
       Output (''displaying results from '' @ quoted ''/tmp/t/result.05.vtk''),
       Output (''to '' @ quoted ''gallery/images/b-ex3.png'' @ ''...''),
       Render (demo_view\<lparr>view_filename := ''/tmp/t/result.05.vtk''\<rparr>) False True
         ''/s/gallery/images/b-ex3.png'',
       Clf, Output ''...done'', RemoveFiles ''/tmp/t'', Output ''...done''],
      None)
   \<and> generate_images
       (demo_world [''/s/examples/a/ex1.py'', ''/s/examples/b/ex4.py'', ''/s/examples/b/ex3.py''])
       ''/s/gallery/images'' ''/s/examples''
     = ([EnsurePath ''/s/gallery/images/'',
         Output (''trying '' @ quoted ''a/ex1.py'' @ ''...''),
         Solve ''/s/examples/a/ex1.py'' demo_options,
         Output (''displaying results from '' @ quoted ''/tmp/t/result.vtk''),
         Output (''to '' @ quoted ''gallery/images/a-ex1.png'' @ ''...''),
         Render (demo_view\<lparr>view_filename := ''/tmp/t/result.vtk''\<rparr>) False True
           ''/s/gallery/images/a-ex1.png'',
         Clf, Output ''...done'', RemoveFiles ''/tmp/t'', Output ''...done'',
         Output (''trying '' @ quoted ''b/ex4.py'' @ ''...''),
         Solve ''/s/examples/b/ex4.py'' demo_options],
        Some KeyboardInterrupt)"
proof -
  let ?w = "demo_world [''/s/examples/a/ex1.py'', ''/s/examples/a/ex2.py'',
                        ''/s/examples/b/ex3.py'']"
  let ?v = "demo_world [''/s/examples/a/ex1.py'', ''/s/examples/b/ex4.py'',
                        ''/s/examples/b/ex3.py'']"
  let ?before = "[EnsurePath ''/s/gallery/images/'',
       Output (''trying '' @ quoted ''a/ex1.py'' @ ''...''),
       Solve ''/s/examples/a/ex1.py'' demo_options,
       Output (''displaying results from '' @ quoted ''/tmp/t/result.vtk''),
       Output (''to '' @ quoted ''gallery/images/a-ex1.png'' @ ''...''),
       Render (demo_view\<lparr>view_filename := ''/tmp/t/result.vtk''\<rparr>) False True
         ''/s/gallery/images/a-ex1.png'',
       Clf, Output ''...done'', RemoveFiles ''/tmp/t'', Output ''...done'']"
  have located: "locate_files ?w ''/s/examples''
      = [''/s/examples/a/ex1.py''] @ ''/s/examples/a/ex2.py'' # [''/s/examples/b/ex3.py'']"
    and located': "locate_files ?v ''/s/examples''
      = [''/s/examples/a/ex1.py''] @ ''/s/examples/b/ex4.py'' # [''/s/examples/b/ex3.py'']"
    by (simp_all add: demo_world_def)
  have kept2: "basename ''/s/examples/a/ex2.py'' \<notin> set omits"
    and kept4: "basename ''/s/examples/b/ex4.py'' \<notin> set omits"
    by code_simp+
  have before: "generate_images (?w\<lparr>locate_files := \<lambda>d. [''/s/examples/a/ex1.py'']\<rparr>)
        ''/s/gallery/images'' ''/s/examples'' = (?before, None)"
    and before': "generate_images (?v\<lparr>locate_files := \<lambda>d. [''/s/examples/a/ex1.py'']\<rparr>)
        ''/s/gallery/images'' ''/s/examples'' = (?before, None)"
    by code_simp+
  have after: "generate_images (?w\<lparr>locate_files := \<lambda>d. [''/s/examples/b/ex3.py'']\<rparr>)
        ''/s/gallery/images'' ''/s/examples''
      = ([EnsurePath ''/s/gallery/images/'',
          Output (''trying '' @ quoted ''b/ex3.py'' @ ''...''),
          Solve ''/s/examples/b/ex3.py'' demo_options,
          Output (''displaying results from '' @ quoted ''/tmp/t/result.05.vtk''),
          Output (''to '' @ quoted ''gallery/images/b-ex3.png'' @ ''...''),
          Render (demo_view\<lparr>view_filename := ''/tmp/t/result.05.vtk''\<rparr>) False True
            ''/s/gallery/images/b-ex3.png'',
          Clf, Output ''...done'', RemoveFiles ''/tmp/t'', Output ''...done''], None)"
    by code_simp
  have failed: "pde_solve ?w ''/s/examples/a/ex2.py''
        (image_options (join (mkdtemp ?w) ''result'')) = Failed"
    and interrupted: "pde_solve ?v ''/s/examples/b/ex4.py''
        (image_options (join (mkdtemp ?v) ''result'')) = Interrupted"
    by code_simp+
  have opts: "image_options (join (mkdtemp ?w) ''result'') = demo_options"
    and opts': "image_options (join (mkdtemp ?v) ''result'') = demo_options"
    and e2: "get_ebase ''/s/examples'' ''/s/examples/a/ex2.py'' = ''a/ex2.py''"
    and e4: "get_ebase ''/s/examples'' ''/s/examples/b/ex4.py'' = ''b/ex4.py''"
    by code_simp+
  have returned: "snd (generate_images (?w\<lparr>locate_files := \<lambda>d. [''/s/examples/a/ex1.py'']\<rparr>)
        ''/s/gallery/images'' ''/s/examples'') = None"
    and returned': "snd (generate_images (?v\<lparr>locate_files := \<lambda>d. [''/s/examples/a/ex1.py'']\<rparr>)
        ''/s/gallery/images'' ''/s/examples'') = None"
    by (simp_all add: before before')
  from solve_failure_isolated [OF located kept2 returned] failed
  have "fst (generate_images ?w ''/s/gallery/images'' ''/s/examples'')
      = fst (generate_images (?w\<lparr>locate_files := \<lambda>d. [''/s/examples/a/ex1.py'']\<rparr>)
               ''/s/gallery/images'' ''/s/examples'')
        @ [Output (''trying '' @ quoted (get_ebase ''/s/examples'' ''/s/examples/a/ex2.py'')
                   @ ''...''),
           Solve ''/s/examples/a/ex2.py'' (image_options (join (mkdtemp ?w) ''result'')),
           Output ''***** failed! *****'', Output ''...done'']
        @ tl (fst (generate_images (?w\<lparr>locate_files := \<lambda>d. [''/s/examples/b/ex3.py'']\<rparr>)
                     ''/s/gallery/images'' ''/s/examples''))
      \<and> snd (generate_images ?w ''/s/gallery/images'' ''/s/examples'')
        = snd (generate_images (?w\<lparr>locate_files := \<lambda>d. [''/s/examples/b/ex3.py'']\<rparr>)
                 ''/s/gallery/images'' ''/s/examples'')"
    by blast
  then have first: "generate_images ?w ''/s/gallery/images'' ''/s/examples''
      = (?before
         @ [Output (''trying '' @ quoted ''a/ex2.py'' @ ''...''),
            Solve ''/s/examples/a/ex2.py'' demo_options,
            Output ''***** failed! *****'', Output ''...done'']
         @ [Output (''trying '' @ quoted ''b/ex3.py'' @ ''...''),
            Solve ''/s/examples/b/ex3.py'' demo_options,
            Output (''displaying results from '' @ quoted ''/tmp/t/result.05.vtk''),
            Output (''to '' @ quoted ''gallery/images/b-ex3.png'' @ ''...''),
            Render (demo_view\<lparr>view_filename := ''/tmp/t/result.05.vtk''\<rparr>) False True
              ''/s/gallery/images/b-ex3.png'',
            Clf, Output ''...done'', RemoveFiles ''/tmp/t'', Output ''...done''], None)"
    by (simp only: before after opts e2 fst_conv snd_conv list.sel prod_eq_iff)
  from solve_failure_isolated [OF located' kept4 returned'] interrupted
  have "generate_images ?v ''/s/gallery/images'' ''/s/examples''
      = (fst (generate_images (?v\<lparr>locate_files := \<lambda>d. [''/s/examples/a/ex1.py'']\<rparr>)
                ''/s/gallery/images'' ''/s/examples'')
         @ [Output (''trying '' @ quoted (get_ebase ''/s/examples'' ''/s/examples/b/ex4.py'')
                    @ ''...''),
            Solve ''/s/examples/b/ex4.py'' (image_options (join (mkdtemp ?v) ''result''))],
         Some KeyboardInterrupt)"
    by blast
  then have second: "generate_images ?v ''/s/gallery/images'' ''/s/examples''
      = (?before
         @ [Output (''trying '' @ quoted ''b/ex4.py'' @ ''...''),
            Solve ''/s/examples/b/ex4.py'' demo_options], Some KeyboardInterrupt)"
    by (simp only: before' opts' e4 fst_conv)
  from first second show ?thesis by simp
qed

end
